theory Spec2Isabelle
  imports Complex_Main
begin

section \<open>Numbers and utilities (utils.ts)\<close>

text \<open>
  The library computes with JavaScript numbers. They are modelled as the real numbers:
  NaN and the infinities are outside the model, and a function whose name does not end
  in \<open>_double\<close> computes in exact arithmetic. Where a claim turns on the rounding
  of binary64, the function is given a second time with the rounding written out (see the
  section on double precision). The only infinity the code passes around on purpose
  (the threshold of \<open>LengthMeasurer.measureCubic\<close>) is modelled separately.
  A division by zero gives NaN or an infinity in JavaScript and 0 in HOL; no statement
  below rests on the value of such a division.
\<close>

definition DistanceEpsilon :: real where
  "DistanceEpsilon = 1 / 10000"

definition AngleEpsilon :: real where
  "AngleEpsilon = 1 / 1000000"

definition interpolate :: "real \<Rightarrow> real \<Rightarrow> real \<Rightarrow> real" where
  "interpolate start stop fraction = (1 - fraction) * start + fraction * stop"

text \<open>
  JavaScript's \<open>%\<close> on numbers is the remainder of the division truncated towards zero;
  it has the sign of the dividend. (A zero divisor gives NaN in JavaScript; the library
  only takes remainders by 1.)
\<close>

definition js_trunc :: "real \<Rightarrow> int" where
  "js_trunc r = (if 0 \<le> r then \<lfloor>r\<rfloor> else \<lceil>r\<rceil>)"

definition js_rem :: "real \<Rightarrow> real \<Rightarrow> real" where
  "js_rem a b = a - b * of_int (js_trunc (a / b))"

definition positiveModulo :: "real \<Rightarrow> real \<Rightarrow> real" where
  "positiveModulo v m = js_rem (js_rem v m + m) m"

definition distance :: "real \<Rightarrow> real \<Rightarrow> real" where
  "distance a b = sqrt (a * a + b * b)"

definition distanceSquared :: "real \<Rightarrow> real \<Rightarrow> real" where
  "distanceSquared a b = a * a + b * b"

text \<open>
  \<open>Array.prototype.findIndex\<close>: the index of the first element that satisfies the
  predicate, or \<open>-1\<close>. Reading an array at an index outside it gives \<open>undefined\<close>
  (\<open>None\<close>).
\<close>

fun findIndex_from :: "('a \<Rightarrow> bool) \<Rightarrow> 'a list \<Rightarrow> int \<Rightarrow> int" where
  "findIndex_from P [] k = - 1"
| "findIndex_from P (v # vs) k = (if P v then k else findIndex_from P vs (k + 1))"

definition findIndex :: "('a \<Rightarrow> bool) \<Rightarrow> 'a list \<Rightarrow> int" where
  "findIndex P vs = findIndex_from P vs 0"

definition js_read :: "'a list \<Rightarrow> int \<Rightarrow> 'a option" where
  "js_read vs i = (if 0 \<le> i \<and> i < int (length vs) then Some (vs ! nat i) else None)"

text \<open>
  \<open>%\<close> on integers (array indices), again truncated towards zero, and
  \<open>splice(start, 0, item)\<close>, which inserts before the index \<open>start\<close>; a negative
  \<open>start\<close> counts from the end, and the index is clamped to the array.
\<close>

definition js_int_rem :: "int \<Rightarrow> int \<Rightarrow> int" where
  "js_int_rem a b = sgn a * (\<bar>a\<bar> mod \<bar>b\<bar>)"

definition js_splice_insert :: "'a list \<Rightarrow> int \<Rightarrow> 'a \<Rightarrow> 'a list" where
  "js_splice_insert vs start item =
     (let len = int (length vs);
          k = nat (if start < 0 then max (len + start) 0 else min start len)
      in take k vs @ [item] @ drop k vs)"

text \<open>\<open>Number.MAX_VALUE\<close>, the largest double.\<close>

definition MAX_VALUE :: real where
  "MAX_VALUE = (2 - 1 / 2 ^ 52) * 2 ^ 1023"

section \<open>Double precision\<close>

text \<open>
  A JavaScript number is an IEEE 754 binary64 value, and an arithmetic operation returns
  the binary64 value nearest to its exact result, a tie going to the value with the even
  significand. \<open>double v\<close> is that value for a real \<open>v\<close>: with \<open>binade v\<close> the exponent
  \<open>e\<close> of \<open>v\<close> (\<open>2^e \<le> |v| < 2^(e+1)\<close>), the values around \<open>v\<close> are the multiples of
  \<open>ulp v = 2^(e-52)\<close>. This describes the normal range of binary64 (magnitudes from
  \<open>2^-1022\<close> up to \<open>2^1024\<close>); every number rounded below lies between \<open>2^-10\<close> and 2.

  A literal such as \<open>0.001\<close> denotes \<open>double (1 / 1000)\<close>, and \<open>1 / 3\<close> evaluates to
  \<open>double (1 / 3)\<close>. The remainder \<open>%\<close> of two binary64 values is itself a binary64
  value, so \<open>js_rem\<close> is not rounded.
\<close>

definition roundTiesToEven :: "real \<Rightarrow> int" where
  "roundTiesToEven v =
     (let n = \<lfloor>v\<rfloor>; r = v - of_int n
      in if r < 1 / 2 then n else if 1 / 2 < r then n + 1 else if even n then n else n + 1)"

definition binade :: "real \<Rightarrow> int" where
  "binade v = \<lfloor>log 2 \<bar>v\<bar>\<rfloor>"

definition ulp :: "real \<Rightarrow> real" where
  "ulp v = (let e = binade v in if 52 \<le> e then 2 ^ nat (e - 52) else 1 / 2 ^ nat (52 - e))"

definition double :: "real \<Rightarrow> real" where
  "double v = (if v = 0 then 0 else of_int (roundTiesToEven (v / ulp v)) * ulp v)"


definition positiveModulo_double :: "real \<Rightarrow> real \<Rightarrow> real" where
  "positiveModulo_double v m = js_rem (double (js_rem v m + m)) m"

section \<open>Point (point.ts, not among the sources)\<close>

text \<open>
  Modelled from the spec: the class \<open>Point\<close> of \<open>./point\<close>, which every other file
  imports and which is not among the sources. The spec gives it as an immutable pair
  \<open>(x, y: real)\<close> with the vector operations add, subtract, scale, dot, distance,
  rotate 90 degrees, normalize, clockwise test and linear interpolation; the
  definitions below are these operations under the method names the sources call.
  The fields are named \<open>px\<close> and \<open>py\<close> for the source's \<open>x\<close> and \<open>y\<close>.
\<close>

record Point =
  px :: real
  py :: real

text \<open>
  Modelled from the spec: the constructor and the methods of \<open>Point\<close> that the sources
  call (\<open>plus\<close>, \<open>minus\<close>, \<open>times\<close>, \<open>div\<close>, \<open>dotProduct\<close>, \<open>dotProductScalar\<close>,
  \<open>getDistance\<close>, \<open>getDistanceSquared\<close>, \<open>getDirection\<close>, \<open>rotate90\<close>, \<open>clockwise\<close>
  and the static \<open>interpolate\<close>), as the vector operations the spec lists.
\<close>

definition mkPoint :: "real \<Rightarrow> real \<Rightarrow> Point" where
  "mkPoint a b = \<lparr>px = a, py = b\<rparr>"

definition Point_plus :: "Point \<Rightarrow> Point \<Rightarrow> Point" where
  "Point_plus p q = mkPoint (px p + px q) (py p + py q)"

definition Point_minus :: "Point \<Rightarrow> Point \<Rightarrow> Point" where
  "Point_minus p q = mkPoint (px p - px q) (py p - py q)"

definition Point_times :: "Point \<Rightarrow> real \<Rightarrow> Point" where
  "Point_times p k = mkPoint (px p * k) (py p * k)"

definition Point_div :: "Point \<Rightarrow> real \<Rightarrow> Point" where
  "Point_div p k = mkPoint (px p / k) (py p / k)"

definition Point_dotProduct :: "Point \<Rightarrow> Point \<Rightarrow> real" where
  "Point_dotProduct p q = px p * px q + py p * py q"

definition Point_dotProductScalar :: "Point \<Rightarrow> real \<Rightarrow> real \<Rightarrow> real" where
  "Point_dotProductScalar p a b = px p * a + py p * b"

definition Point_getDistance :: "Point \<Rightarrow> real" where
  "Point_getDistance p = sqrt (px p * px p + py p * py p)"

definition Point_getDistanceSquared :: "Point \<Rightarrow> real" where
  "Point_getDistanceSquared p = px p * px p + py p * py p"

definition Point_getDirection :: "Point \<Rightarrow> Point" where
  "Point_getDirection p = Point_div p (Point_getDistance p)"

definition Point_rotate90 :: "Point \<Rightarrow> Point" where
  "Point_rotate90 p = mkPoint (- py p) (px p)"

definition Point_clockwise :: "Point \<Rightarrow> Point \<Rightarrow> bool" where
  "Point_clockwise p q = (px p * py q - py p * px q > 0)"

definition Point_interpolate :: "Point \<Rightarrow> Point \<Rightarrow> real \<Rightarrow> Point" where
  "Point_interpolate start stop fraction =
     mkPoint (interpolate (px start) (px stop) fraction)
             (interpolate (py start) (py stop) fraction)"

section \<open>Utilities that use points (utils.ts)\<close>

definition convex :: "Point \<Rightarrow> Point \<Rightarrow> Point \<Rightarrow> bool" where
  "convex previous current next =
     Point_clockwise (Point_minus current previous) (Point_minus next current)"

definition directionVector :: "real \<Rightarrow> real \<Rightarrow> Point" where
  "directionVector a b = (let d = distance a b in mkPoint (a / d) (b / d))"

definition radialToCartesian :: "real \<Rightarrow> real \<Rightarrow> Point \<Rightarrow> Point" where
  "radialToCartesian radius angleRadians center =
     Point_plus (Point_times (mkPoint (cos angleRadians) (sin angleRadians)) radius) center"

text \<open>
  \<open>coerceIn(value, min, max?)\<close>. With \<open>max\<close> given, \<open>min\<close> and \<open>max\<close> are numbers
  (\<open>WithBounds\<close>). With \<open>max\<close> left out, the second argument is whatever the caller
  passed: an object with the keys \<open>start\<close> and \<open>endInclusive\<close> (\<open>RangeObject\<close>),
  \<open>null\<close>, on which the operator \<open>in\<close> throws a TypeError, or anything else
  (\<open>NotARange\<close>: a number, or an object without these keys), for which the function
  throws its own error.
\<close>

datatype js_error = TypeError | Error string

datatype range_argument = RangeObject real real | NullArgument | NotARange

datatype coerceIn_call =
    WithBounds real real real
  | SingleArgument real range_argument

fun coerceIn :: "coerceIn_call \<Rightarrow> js_error + real" where
  "coerceIn (SingleArgument v (RangeObject start endInclusive)) =
     Inr (max start (min endInclusive v))"
| "coerceIn (SingleArgument v NullArgument) = Inl TypeError"
| "coerceIn (SingleArgument v NotARange) = Inl (Error ''Invalid arguments for coerceIn'')"
| "coerceIn (WithBounds v mn mx) =
     (let (actualMin, actualMax) = (if mn \<le> mx then (mn, mx) else (mx, mn))
      in Inr (max actualMin (min actualMax v)))"

section \<open>Cubic (cubic.ts)\<close>

text \<open>
  A \<open>Cubic\<close> wraps an array \<open>points\<close> that every constructor call of the library fills
  with exactly eight numbers; the getters \<open>anchor0X\<close> ... \<open>anchor1Y\<close> read the entries
  0 to 7. The record has one field per entry, in the order of the array.
\<close>

record Cubic =
  anchor0X :: real
  anchor0Y :: real
  control0X :: real
  control0Y :: real
  control1X :: real
  control1Y :: real
  anchor1X :: real
  anchor1Y :: real

text \<open>\<open>new Cubic([p0, ..., p7])\<close>.\<close>

definition mkCubic ::
  "real \<Rightarrow> real \<Rightarrow> real \<Rightarrow> real \<Rightarrow> real \<Rightarrow> real \<Rightarrow> real \<Rightarrow> real \<Rightarrow> Cubic" where
  "mkCubic p0 p1 p2 p3 p4 p5 p6 p7 =
     \<lparr>anchor0X = p0, anchor0Y = p1, control0X = p2, control0Y = p3,
      control1X = p4, control1Y = p5, anchor1X = p6, anchor1Y = p7\<rparr>"

text \<open>
  The array expression of \<open>Morph.asCubics\<close>: entry \<open>it\<close> of the new cubic is
  \<open>interpolate(a.points[it], b.points[it], progress)\<close>, for \<open>it\<close> from 0 to 7.
\<close>

definition interpolateCubic :: "Cubic \<Rightarrow> Cubic \<Rightarrow> real \<Rightarrow> Cubic" where
  "interpolateCubic a b progress =
     mkCubic
       (interpolate (anchor0X a) (anchor0X b) progress)
       (interpolate (anchor0Y a) (anchor0Y b) progress)
       (interpolate (control0X a) (control0X b) progress)
       (interpolate (control0Y a) (control0Y b) progress)
       (interpolate (control1X a) (control1X b) progress)
       (interpolate (control1Y a) (control1Y b) progress)
       (interpolate (anchor1X a) (anchor1X b) progress)
       (interpolate (anchor1Y a) (anchor1Y b) progress)"

text \<open>
  \<open>MutableCubic.interpolate(c1, c2, progress)\<close> overwrites the entries 0 to 7 of the
  receiver in place; the model returns the receiver after the eight assignments.
\<close>

definition MutableCubic_interpolate :: "Cubic \<Rightarrow> Cubic \<Rightarrow> Cubic \<Rightarrow> real \<Rightarrow> Cubic" where
  "MutableCubic_interpolate this c1 c2 progress =
     this\<lparr>anchor0X := interpolate (anchor0X c1) (anchor0X c2) progress,
          anchor0Y := interpolate (anchor0Y c1) (anchor0Y c2) progress,
          control0X := interpolate (control0X c1) (control0X c2) progress,
          control0Y := interpolate (control0Y c1) (control0Y c2) progress,
          control1X := interpolate (control1X c1) (control1X c2) progress,
          control1Y := interpolate (control1Y c1) (control1Y c2) progress,
          anchor1X := interpolate (anchor1X c1) (anchor1X c2) progress,
          anchor1Y := interpolate (anchor1Y c1) (anchor1Y c2) progress\<rparr>"

text \<open>
  The closing cubic that \<open>Morph.asCubics\<close> and \<open>RoundedPolygon.buildCubicList\<close> push
  last: anchor0 and both controls of \<open>lastCubic\<close>, anchor1 replaced by the anchor0 of
  \<open>firstCubic\<close>.
\<close>

definition closingCubic :: "Cubic \<Rightarrow> Cubic \<Rightarrow> Cubic" where
  "closingCubic lastCubic firstCubic =
     mkCubic (anchor0X lastCubic) (anchor0Y lastCubic)
             (control0X lastCubic) (control0Y lastCubic)
             (control1X lastCubic) (control1Y lastCubic)
             (anchor0X firstCubic) (anchor0Y firstCubic)"

definition Cubic_create :: "Point \<Rightarrow> Point \<Rightarrow> Point \<Rightarrow> Point \<Rightarrow> Cubic" where
  "Cubic_create a0 c0 c1 a1 =
     mkCubic (px a0) (py a0) (px c0) (py c0) (px c1) (py c1) (px a1) (py a1)"

definition pointOnCurve :: "Cubic \<Rightarrow> real \<Rightarrow> Point" where
  "pointOnCurve c t =
     (let u = 1 - t in
      mkPoint
        (anchor0X c * (u * u * u) + control0X c * (3 * t * u * u) +
         control1X c * (3 * t * t * u) + anchor1X c * (t * t * t))
        (anchor0Y c * (u * u * u) + control0Y c * (3 * t * u * u) +
         control1Y c * (3 * t * t * u) + anchor1Y c * (t * t * t)))"

definition zeroLength :: "Cubic \<Rightarrow> bool" where
  "zeroLength c \<longleftrightarrow>
     \<bar>anchor0X c - anchor1X c\<bar> < DistanceEpsilon \<and> \<bar>anchor0Y c - anchor1Y c\<bar> < DistanceEpsilon"

text \<open>\<open>split(t)\<close> returns the object \<open>{a, b}\<close>, here the pair \<open>(a, b)\<close>.\<close>

definition split :: "Cubic \<Rightarrow> real \<Rightarrow> Cubic \<times> Cubic" where
  "split c t =
     (let u = 1 - t; pointOnCurve = pointOnCurve c t in
      (mkCubic
         (anchor0X c) (anchor0Y c)
         (anchor0X c * u + control0X c * t)
         (anchor0Y c * u + control0Y c * t)
         (anchor0X c * (u * u) + control0X c * (2 * u * t) + control1X c * (t * t))
         (anchor0Y c * (u * u) + control0Y c * (2 * u * t) + control1Y c * (t * t))
         (px pointOnCurve) (py pointOnCurve),
       mkCubic
         (px pointOnCurve) (py pointOnCurve)
         (control0X c * (u * u) + control1X c * (2 * u * t) + anchor1X c * (t * t))
         (control0Y c * (u * u) + control1Y c * (2 * u * t) + anchor1Y c * (t * t))
         (control1X c * u + anchor1X c * t)
         (control1Y c * u + anchor1Y c * t)
         (anchor1X c) (anchor1Y c)))"

definition reverse :: "Cubic \<Rightarrow> Cubic" where
  "reverse c =
     mkCubic (anchor1X c) (anchor1Y c) (control1X c) (control1Y c)
             (control0X c) (control0Y c) (anchor0X c) (anchor0Y c)"

definition straightLine :: "real \<Rightarrow> real \<Rightarrow> real \<Rightarrow> real \<Rightarrow> Cubic" where
  "straightLine x0 y0 x1 y1 =
     mkCubic x0 y0
       (interpolate x0 x1 (1 / 3)) (interpolate y0 y1 (1 / 3))
       (interpolate x0 x1 (2 / 3)) (interpolate y0 y1 (2 / 3))
       x1 y1"


definition circularArc :: "real \<Rightarrow> real \<Rightarrow> real \<Rightarrow> real \<Rightarrow> real \<Rightarrow> real \<Rightarrow> Cubic" where
  "circularArc centerX centerY x0 y0 x1 y1 =
     (let p0d = directionVector (x0 - centerX) (y0 - centerY);
          p1d = directionVector (x1 - centerX) (y1 - centerY);
          rotatedP0 = Point_rotate90 p0d;
          rotatedP1 = Point_rotate90 p1d;
          clockwise = (Point_dotProductScalar rotatedP0 (x1 - centerX) (y1 - centerY) \<ge> 0);
          cosa = Point_dotProduct p0d p1d
      in if cosa > 999 / 1000 then straightLine x0 y0 x1 y1
         else
           (let k = distance (x0 - centerX) (y0 - centerY) * 4 / 3 *
                    (sqrt (2 * (1 - cosa)) - sqrt (1 - cosa * cosa)) / (1 - cosa) *
                    (if clockwise then 1 else - 1)
            in mkCubic x0 y0
                 (x0 + px rotatedP0 * k) (y0 + py rotatedP0 * k)
                 (x1 - px rotatedP1 * k) (y1 - py rotatedP1 * k)
                 x1 y1))"

section \<open>CornerRounding and RoundedCorner\<close>

record CornerRounding =
  radius :: real
  smoothing :: real

definition Unrounded :: CornerRounding where
  "Unrounded = \<lparr>radius = 0, smoothing = 0\<rparr>"

text \<open>
  The fields of a \<open>RoundedCorner\<close>, as the class declares them. \<open>center\<close> is the one
  field that \<open>getCubics\<close> assigns, so \<open>getCubics\<close> returns the corner with it.
  The field \<open>smoothing\<close> of the class is \<open>smoothingValue\<close> here (\<open>smoothing\<close> is the
  field of \<open>CornerRounding\<close>).
\<close>

record RoundedCorner =
  p0 :: Point
  p1 :: Point
  p2 :: Point
  rounding :: "CornerRounding option"
  d1 :: Point
  d2 :: Point
  cornerRadius :: real
  smoothingValue :: real
  cosAngle :: real
  sinAngle :: real
  expectedRoundCut :: real
  center :: Point

definition expectedCut :: "RoundedCorner \<Rightarrow> real" where
  "expectedCut this = (1 + smoothingValue this) * expectedRoundCut this"

text \<open>
  The constructor; \<open>rounding?.radius ?? 0\<close> reads 0 from a \<open>null\<close> rounding. Its
  parameters \<open>p0\<close>, \<open>p1\<close>, \<open>p2\<close> and \<open>rounding\<close> are \<open>q0\<close>, \<open>q1\<close>, \<open>q2\<close> and \<open>r\<close>
  here, as the plain names are the fields.
\<close>

definition newRoundedCorner ::
  "Point \<Rightarrow> Point \<Rightarrow> Point \<Rightarrow> CornerRounding option \<Rightarrow> RoundedCorner" where
  "newRoundedCorner q0 q1 q2 r =
     (let v01 = Point_minus q0 q1;
          v21 = Point_minus q2 q1;
          d01 = Point_getDistance v01;
          d21 = Point_getDistance v21
      in if d01 > 0 \<and> d21 > 0 then
           (let e1 = Point_div v01 d01;
                e2 = Point_div v21 d21;
                cr = (case r of None \<Rightarrow> 0 | Some c \<Rightarrow> radius c);
                sm = (case r of None \<Rightarrow> 0 | Some c \<Rightarrow> smoothing c);
                ca = Point_dotProduct e1 e2;
                sa = sqrt (1 - ca ^ 2)
            in \<lparr>p0 = q0, p1 = q1, p2 = q2, rounding = r, d1 = e1, d2 = e2,
                cornerRadius = cr, smoothingValue = sm, cosAngle = ca, sinAngle = sa,
                expectedRoundCut = (if sa > 1 / 1000 then cr * (ca + 1) / sa else 0),
                center = mkPoint 0 0\<rparr>)
         else
           \<lparr>p0 = q0, p1 = q1, p2 = q2, rounding = r, d1 = mkPoint 0 0, d2 = mkPoint 0 0,
            cornerRadius = 0, smoothingValue = 0, cosAngle = 0, sinAngle = 0,
            expectedRoundCut = 0, center = mkPoint 0 0\<rparr>)"

definition calculateActualSmoothingValue :: "RoundedCorner \<Rightarrow> real \<Rightarrow> real" where
  "calculateActualSmoothingValue this allowedCut =
     (if allowedCut > expectedCut this then smoothingValue this
      else if allowedCut > expectedRoundCut this then
        smoothingValue this * (allowedCut - expectedRoundCut this) /
          (expectedCut this - expectedRoundCut this)
      else 0)"

text \<open>
  \<open>lineIntersection(p0, d0, p1, d1)\<close> returns \<open>null\<close> (\<open>None\<close>) for near-parallel
  lines; its parameters are \<open>q0\<close>, \<open>e0\<close>, \<open>q1\<close> and \<open>e1\<close> here.
\<close>

definition lineIntersection :: "Point \<Rightarrow> Point \<Rightarrow> Point \<Rightarrow> Point \<Rightarrow> Point option" where
  "lineIntersection q0 e0 q1 e1 =
     (let rotatedD1 = Point_rotate90 e1;
          den = Point_dotProduct e0 rotatedD1
      in if \<bar>den\<bar> < DistanceEpsilon then None
         else
           (let num = Point_dotProduct (Point_minus q1 q0) rotatedD1
            in if \<bar>den\<bar> < DistanceEpsilon * \<bar>num\<bar> then None
               else (let k = num / den in Some (Point_plus q0 (Point_times e0 k)))))"

definition computeFlankingCurve ::
  "real \<Rightarrow> real \<Rightarrow> Point \<Rightarrow> Point \<Rightarrow> Point \<Rightarrow> Point \<Rightarrow> Point \<Rightarrow> real \<Rightarrow> Cubic" where
  "computeFlankingCurve actualRoundCut actualSmoothingValues corner sideStart
       circleSegmentIntersection otherCircleSegmentIntersection circleCenter actualR =
     (let sideDirection = Point_getDirection (Point_minus sideStart corner);
          curveStart = Point_plus corner
            (Point_times sideDirection (actualRoundCut * (1 + actualSmoothingValues)));
          p = Point_interpolate circleSegmentIntersection
                (Point_div (Point_plus circleSegmentIntersection otherCircleSegmentIntersection) 2)
                actualSmoothingValues;
          curveEnd = Point_plus circleCenter
            (Point_times (directionVector (px p - px circleCenter) (py p - py circleCenter)) actualR);
          circleTangent = Point_rotate90 (Point_minus curveEnd circleCenter);
          anchorEnd = (case lineIntersection sideStart sideDirection curveEnd circleTangent of
                         Some q \<Rightarrow> q | None \<Rightarrow> circleSegmentIntersection);
          anchorStart = Point_div (Point_plus curveStart (Point_times anchorEnd 2)) 3
      in Cubic_create curveStart anchorStart anchorEnd curveEnd)"

text \<open>
  \<open>getCubics(allowedCut0, allowedCut1)\<close>: the corner after the call (its \<open>center\<close>
  assigned) and the cubics returned. (A call with one argument is the call with
  \<open>allowedCut1 = allowedCut0\<close>.)
\<close>

definition getCubics :: "RoundedCorner \<Rightarrow> real \<Rightarrow> real \<Rightarrow> RoundedCorner \<times> Cubic list" where
  "getCubics this allowedCut0 allowedCut1 =
     (let allowedCut = min allowedCut0 allowedCut1
      in if expectedRoundCut this < DistanceEpsilon \<or> allowedCut < DistanceEpsilon \<or>
            cornerRadius this < DistanceEpsilon
         then (this\<lparr>center := p1 this\<rparr>,
               [straightLine (px (p1 this)) (py (p1 this)) (px (p1 this)) (py (p1 this))])
         else
           (let actualRoundCut = min allowedCut (expectedRoundCut this);
                actualSmoothing0 = calculateActualSmoothingValue this allowedCut0;
                actualSmoothing1 = calculateActualSmoothingValue this allowedCut1;
                actualR = cornerRadius this * actualRoundCut / expectedRoundCut this;
                centerDistance = sqrt (actualR ^ 2 + actualRoundCut ^ 2);
                newCenter = Point_plus (p1 this)
                  (Point_times
                     (Point_getDirection (Point_div (Point_plus (d1 this) (d2 this)) 2))
                     centerDistance);
                circleIntersection0 = Point_plus (p1 this) (Point_times (d1 this) actualRoundCut);
                circleIntersection2 = Point_plus (p1 this) (Point_times (d2 this) actualRoundCut);
                flanking0 = computeFlankingCurve actualRoundCut actualSmoothing0 (p1 this)
                  (p0 this) circleIntersection0 circleIntersection2 newCenter actualR;
                flanking2 = reverse
                  (computeFlankingCurve actualRoundCut actualSmoothing1 (p1 this)
                     (p2 this) circleIntersection2 circleIntersection0 newCenter actualR)
            in (this\<lparr>center := newCenter\<rparr>,
                [flanking0,
                 circularArc (px newCenter) (py newCenter)
                   (anchor1X flanking0) (anchor1Y flanking0)
                   (anchor0X flanking2) (anchor0Y flanking2),
                 flanking2])))"

section \<open>Feature\<close>

text \<open>
  The two subclasses of the abstract class \<open>Feature\<close>: an \<open>Edge\<close> carries its
  cubics, a \<open>Corner\<close> its cubics and the flag \<open>convex\<close>.
\<close>

datatype Feature = Edge "Cubic list" | Corner "Cubic list" bool

fun cubics :: "Feature \<Rightarrow> Cubic list" where
  "cubics (Edge cs) = cs"
| "cubics (Corner cs cnvx) = cs"

fun isCorner :: "Feature \<Rightarrow> bool" where
  "isCorner (Edge cs) = False"
| "isCorner (Corner cs cnvx) = True"

section \<open>RoundedPolygon\<close>

text \<open>
  The state of the two nested loops of \<open>buildCubicList\<close>: the list \<open>result\<close> and the
  variables \<open>firstCubic\<close> and \<open>lastCubic\<close> (\<open>None\<close> for \<open>null\<close>).
\<close>

type_synonym build_state = "Cubic list \<times> Cubic option \<times> Cubic option"

text \<open>
  The inner loop over the cubics of one feature. A cubic that is not of zero length
  pushes the cubic held back so far and is held back itself; one of zero length is
  dropped, and the cubic held back is copied with its entries 6 and 7 (anchor1) set to
  the dropped cubic's anchor1.
\<close>

fun buildCubicList_inner :: "Cubic list \<Rightarrow> build_state \<Rightarrow> build_state" where
  "buildCubicList_inner [] st = st"
| "buildCubicList_inner (cubic # rest) (result, firstCubic, lastCubic) =
     (if \<not> zeroLength cubic then
        buildCubicList_inner rest
          ((case lastCubic of None \<Rightarrow> result | Some l \<Rightarrow> result @ [l]),
           (if firstCubic = None then Some cubic else firstCubic),
           Some cubic)
      else
        buildCubicList_inner rest
          (result, firstCubic,
           (case lastCubic of
              None \<Rightarrow> None
            | Some l \<Rightarrow> Some (l\<lparr>anchor1X := anchor1X cubic, anchor1Y := anchor1Y cubic\<rparr>))))"

text \<open>
  The choice of \<open>featureCubics\<close> at index \<open>i\<close> of the outer loop; \<open>None\<close> is the
  \<open>break\<close>.
\<close>

definition featureCubicsAt ::
  "Feature list \<Rightarrow> Cubic list option \<Rightarrow> Cubic list option \<Rightarrow> nat \<Rightarrow> Cubic list option" where
  "featureCubicsAt fs firstFeatureSplitStart firstFeatureSplitEnd i =
     (if i = 0 \<and> firstFeatureSplitEnd \<noteq> None then firstFeatureSplitEnd
      else if i = length fs then firstFeatureSplitStart
      else Some (cubics (fs ! i)))"

text \<open>The outer loop, \<open>for (let i = 0; i <= this.features.length; i++)\<close>.\<close>

function buildCubicList_outer ::
  "Feature list \<Rightarrow> Cubic list option \<Rightarrow> Cubic list option \<Rightarrow> nat \<Rightarrow> build_state \<Rightarrow>
   build_state" where
  "buildCubicList_outer fs splitStart splitEnd i st =
     (if i \<le> length fs then
        (case featureCubicsAt fs splitStart splitEnd i of
           None \<Rightarrow> st
         | Some featureCubics \<Rightarrow>
             buildCubicList_outer fs splitStart splitEnd (i + 1)
               (buildCubicList_inner featureCubics st))
      else st)"
  by pat_completeness auto
termination
  by (relation "measure (\<lambda>(fs, splitStart, splitEnd, i, st). length fs + 1 - i)") auto

declare buildCubicList_outer.simps [simp del]

definition buildCubicList :: "Feature list \<Rightarrow> Point \<Rightarrow> Cubic list" where
  "buildCubicList fs cntr =
     (let (firstFeatureSplitStart, firstFeatureSplitEnd) =
            (if length fs > 0 \<and> length (cubics (fs ! 0)) = 3 then
               (let centerCubic = cubics (fs ! 0) ! 1;
                    (start, end) = split centerCubic (1 / 2)
                in (Some [cubics (fs ! 0) ! 0, start], Some [end, cubics (fs ! 0) ! 2]))
             else (None, None))
      in case buildCubicList_outer fs firstFeatureSplitStart firstFeatureSplitEnd 0
                ([], None, None) of
           (result, Some firstCubic, Some lastCubic) \<Rightarrow>
             result @ [closingCubic lastCubic firstCubic]
         | (result, _, _) \<Rightarrow>
             result @ [mkCubic (px cntr) (py cntr) (px cntr) (py cntr)
                               (px cntr) (py cntr) (px cntr) (py cntr)])"

text \<open>
  A \<open>RoundedPolygon\<close> holds the features and the center it was built from; the
  constructor computes \<open>cubics\<close> with \<open>buildCubicList\<close>.
\<close>

record RoundedPolygon =
  polygonFeatures :: "Feature list"
  polygonCenter :: Point
  polygonCubics :: "Cubic list"

definition newRoundedPolygon :: "Feature list \<Rightarrow> Point \<Rightarrow> RoundedPolygon" where
  "newRoundedPolygon fs cntr =
     \<lparr>polygonFeatures = fs, polygonCenter = cntr, polygonCubics = buildCubicList fs cntr\<rparr>"

text \<open>
  The static constructors. \<open>vertices\<close> is the flat array \<open>[x0, y0, x1, y1, ...]\<close>, of
  even length; \<open>n = vertices.length / 2\<close> is then the number of vertices. A parameter
  \<open>rounding\<close> or \<open>radius\<close> of the source is written \<open>rounding'\<close> or \<open>radius'\<close> here,
  as the plain names are fields of records above.
\<close>

definition MIN_SAFE_INTEGER :: real where
  "MIN_SAFE_INTEGER = - (2 ^ 53 - 1)"

text \<open>The loop of \<open>calculateCenter\<close>, which reads two entries at a time.\<close>

fun sumCoordinates :: "real list \<Rightarrow> real \<times> real \<Rightarrow> real \<times> real" where
  "sumCoordinates (vx # vy # rest) (cumulativeX, cumulativeY) =
     sumCoordinates rest (cumulativeX + vx, cumulativeY + vy)"
| "sumCoordinates rest acc = acc"

definition calculateCenter :: "real list \<Rightarrow> Point" where
  "calculateCenter vertices =
     (let (cumulativeX, cumulativeY) = sumCoordinates vertices (0, 0)
      in mkPoint (cumulativeX / (real (length vertices) / 2))
                 (cumulativeY / (real (length vertices) / 2)))"

text \<open>
  \<open>fromFeatures\<close>. Its two branches for a center that is NaN are outside the model of
  numbers as reals.
\<close>

definition fromFeatures :: "Feature list \<Rightarrow> real \<Rightarrow> real \<Rightarrow> RoundedPolygon" where
  "fromFeatures fs centerX centerY = newRoundedPolygon fs (mkPoint centerX centerY)"

text \<open>\<open>perVertexRounding?.[i] ?? rounding\<close>.\<close>

definition vertexRounding :: "CornerRounding list option \<Rightarrow> CornerRounding \<Rightarrow> nat \<Rightarrow> CornerRounding" where
  "vertexRounding perVertexRounding rounding' i =
     (case perVertexRounding of
        None \<Rightarrow> rounding'
      | Some rs \<Rightarrow> if i < length rs then rs ! i else rounding')"

definition vertexAt :: "real list \<Rightarrow> nat \<Rightarrow> Point" where
  "vertexAt vertices i = mkPoint (vertices ! (i * 2)) (vertices ! (i * 2 + 1))"

text \<open>
  The four loops of \<open>fromVertices\<close>, each as a function of what it reads: the corner
  objects, the pair of ratios of every side, the cubics of every corner, and the
  features.
\<close>

definition roundedCornersOf ::
  "real list \<Rightarrow> CornerRounding \<Rightarrow> CornerRounding list option \<Rightarrow> RoundedCorner list" where
  "roundedCornersOf vertices rounding' perVertexRounding =
     (let n = length vertices div 2
      in map (\<lambda>i. newRoundedCorner
                     (vertexAt vertices ((i + n - 1) mod n))
                     (vertexAt vertices i)
                     (vertexAt vertices ((i + 1) mod n))
                     (Some (vertexRounding perVertexRounding rounding' i)))
           [0 ..< n])"

definition cutAdjustsOf :: "real list \<Rightarrow> RoundedCorner list \<Rightarrow> (real \<times> real) list" where
  "cutAdjustsOf vertices roundedCorners =
     (let n = length vertices div 2
      in map (\<lambda>ix.
                let expectedRoundCut' = expectedRoundCut (roundedCorners ! ix) +
                      expectedRoundCut (roundedCorners ! ((ix + 1) mod n));
                    expectedCut' = expectedCut (roundedCorners ! ix) +
                      expectedCut (roundedCorners ! ((ix + 1) mod n));
                    vtxX = vertices ! (ix * 2);
                    vtxY = vertices ! (ix * 2 + 1);
                    nextVtxX = vertices ! (((ix + 1) mod n) * 2);
                    nextVtxY = vertices ! (((ix + 1) mod n) * 2 + 1);
                    sideSize = distance (vtxX - nextVtxX) (vtxY - nextVtxY)
                in if expectedRoundCut' > sideSize then (sideSize / expectedRoundCut', 0)
                   else if expectedCut' > sideSize then
                     (1, (sideSize - expectedRoundCut') / (expectedCut' - expectedRoundCut'))
                   else (1, 1))
           [0 ..< n])"

definition allowedCutsOf ::
  "nat \<Rightarrow> RoundedCorner list \<Rightarrow> (real \<times> real) list \<Rightarrow> nat \<Rightarrow> real list" where
  "allowedCutsOf n roundedCorners cutAdjusts i =
     map (\<lambda>delta.
            let (roundCutRatio, cutRatio) = cutAdjusts ! ((i + n - 1 + delta) mod n)
            in expectedRoundCut (roundedCorners ! i) * roundCutRatio +
               (expectedCut (roundedCorners ! i) - expectedRoundCut (roundedCorners ! i)) * cutRatio)
       [0, 1]"

definition cornersOf ::
  "nat \<Rightarrow> RoundedCorner list \<Rightarrow> (real \<times> real) list \<Rightarrow> Cubic list list" where
  "cornersOf n roundedCorners cutAdjusts =
     map (\<lambda>i. let allowedCuts = allowedCutsOf n roundedCorners cutAdjusts i
              in snd (getCubics (roundedCorners ! i) (allowedCuts ! 0) (allowedCuts ! 1)))
       [0 ..< n]"

definition tempFeaturesOf :: "real list \<Rightarrow> Cubic list list \<Rightarrow> Feature list" where
  "tempFeaturesOf vertices corners =
     (let n = length vertices div 2
      in concat
           (map (\<lambda>i.
                   let prevVtxIndex = (i + n - 1) mod n;
                       nextVtxIndex = (i + 1) mod n;
                       currVertex = vertexAt vertices i;
                       prevVertex = vertexAt vertices prevVtxIndex;
                       nextVertex = vertexAt vertices nextVtxIndex;
                       cnvx = convex prevVertex currVertex nextVertex
                   in [Corner (corners ! i) cnvx,
                       Edge [straightLine
                               (anchor1X (last (corners ! i)))
                               (anchor1Y (last (corners ! i)))
                               (anchor0X (hd (corners ! ((i + 1) mod n))))
                               (anchor0Y (hd (corners ! ((i + 1) mod n))))]])
              [0 ..< n]))"

definition fromVertices ::
  "real list \<Rightarrow> CornerRounding \<Rightarrow> CornerRounding list option \<Rightarrow> real \<Rightarrow> real \<Rightarrow> RoundedPolygon" where
  "fromVertices vertices rounding' perVertexRounding centerX centerY =
     (let n = length vertices div 2;
          roundedCorners = roundedCornersOf vertices rounding' perVertexRounding;
          cutAdjusts = cutAdjustsOf vertices roundedCorners;
          corners = cornersOf n roundedCorners cutAdjusts;
          tempFeatures = tempFeaturesOf vertices corners;
          cntr = (if centerX = MIN_SAFE_INTEGER \<or> centerY = MIN_SAFE_INTEGER
                  then calculateCenter vertices
                  else mkPoint centerX centerY)
      in fromFeatures tempFeatures (px cntr) (py cntr))"

text \<open>
  \<open>starVerticesFromNumVerts\<close>; the number of vertices per radius is a natural number.
\<close>

definition starVerticesFromNumVerts :: "nat \<Rightarrow> real \<Rightarrow> real \<Rightarrow> real \<Rightarrow> real \<Rightarrow> real list" where
  "starVerticesFromNumVerts numVerticesPerRadius radius' innerRadius centerX centerY =
     concat
       (map (\<lambda>i.
               let vertex = radialToCartesian radius'
                     (pi / real numVerticesPerRadius * 2 * real i) (mkPoint 0 0);
                   vertex' = radialToCartesian innerRadius
                     (pi / real numVerticesPerRadius * (2 * real i + 1)) (mkPoint 0 0)
               in [px vertex + centerX, py vertex + centerY,
                   px vertex' + centerX, py vertex' + centerY])
          [0 ..< numVerticesPerRadius])"

text \<open>
  \<open>star\<close>. In \<open>Array.from({ length })\<close> the name \<open>length\<close> is not a variable of the
  function; it is the global of that name, in a browser the number of frames of the
  window, given here as \<open>windowLength\<close>. (Where no such global exists, evaluating the
  name throws a ReferenceError; the model is of the browser, for which the library is
  built.) The list \<open>pvRounding\<close> is built and then not used: the call of
  \<open>fromVertices\<close> passes \<open>perVertexRounding\<close>.
\<close>

definition star ::
  "nat \<Rightarrow> real \<Rightarrow> real \<Rightarrow> CornerRounding \<Rightarrow> CornerRounding option \<Rightarrow>
   CornerRounding list option \<Rightarrow> real \<Rightarrow> real \<Rightarrow> nat \<Rightarrow> RoundedPolygon" where
  "star numVerticesPerRadius radius' innerRadius rounding' innerRounding perVertexRounding
        centerX centerY windowLength =
     (let pvRounding =
            (case (perVertexRounding, innerRounding) of
               (None, Some inner) \<Rightarrow> Some (concat (replicate windowLength [rounding', inner]))
             | _ \<Rightarrow> perVertexRounding)
      in fromVertices
           (starVerticesFromNumVerts numVerticesPerRadius radius' innerRadius centerX centerY)
           rounding' perVertexRounding centerX centerY)"

text \<open>
  The per-vertex list that claim C2 and the comment in \<open>star\<close> describe: \<open>rounding\<close>
  and \<open>innerRounding\<close> in turn, one pair for each of the \<open>numVerticesPerRadius\<close>
  outer vertices.
\<close>

definition alternatingRounding :: "nat \<Rightarrow> CornerRounding \<Rightarrow> CornerRounding \<Rightarrow> CornerRounding list" where
  "alternatingRounding numVerticesPerRadius rounding' inner =
     concat (replicate numVerticesPerRadius [rounding', inner])"

section \<open>Measuring (Measurer, LengthMeasurer, MeasuredCubic, MeasuredPolygon)\<close>

text \<open>
  A \<open>ProgressableFeature\<close> has the fields \<open>progress\<close> and \<open>feature\<close>, here
  \<open>pfProgress\<close> and \<open>pfFeature\<close>.
\<close>

record ProgressableFeature =
  pfProgress :: real
  pfFeature :: Feature

text \<open>The interface \<open>Measurer\<close>: an object with the two methods.\<close>

record Measurer =
  measureCubic :: "Cubic \<Rightarrow> real"
  findCubicCutPoint :: "Cubic \<Rightarrow> real \<Rightarrow> real"

text \<open>
  \<open>LengthMeasurer.closestProgressTo(cubic, threshold)\<close> is called with a number or with
  \<open>Number.POSITIVE_INFINITY\<close>, so its threshold, its variable \<open>remainder\<close> and the
  second coordinate of the point it returns are numbers or the infinity. A chord length
  is a real number and never reaches an infinite remainder.
\<close>

datatype ext_number = Finite real | PositiveInfinity

fun reaches :: "real \<Rightarrow> ext_number \<Rightarrow> bool" where
  "reaches segment (Finite r) = (segment \<ge> r)"
| "reaches segment PositiveInfinity = False"

fun ext_minus :: "ext_number \<Rightarrow> real \<Rightarrow> ext_number" where
  "ext_minus (Finite r) segment = Finite (r - segment)"
| "ext_minus PositiveInfinity segment = PositiveInfinity"

fun ext_ratio :: "ext_number \<Rightarrow> real \<Rightarrow> real" where
  "ext_ratio (Finite r) segment = r / segment"
| "ext_ratio PositiveInfinity segment = 0"

definition segments :: nat where
  "segments = 3"

text \<open>
  The loop \<open>for (let i = 1; i < this.segments; i++)\<close> with the variables \<open>total\<close> (here \<open>total'\<close>),
  \<open>remainder\<close> and \<open>prev\<close>; the result is the point returned, as the pair of its
  coordinates. (\<open>ext_ratio\<close> is only evaluated on a finite remainder, after \<open>reaches\<close>.)
\<close>

function closestProgressTo_loop ::
  "Cubic \<Rightarrow> ext_number \<Rightarrow> nat \<Rightarrow> real \<Rightarrow> ext_number \<Rightarrow> Point \<Rightarrow> real \<times> ext_number" where
  "closestProgressTo_loop cubic threshold i total' remainder prev =
     (if i < segments then
        (let progress = real i / real segments;
             point = pointOnCurve cubic progress;
             segment = Point_getDistance (Point_minus point prev)
         in if reaches segment remainder then
              (progress - (1 - ext_ratio remainder segment) / real segments, threshold)
            else closestProgressTo_loop cubic threshold (i + 1) (total' + segment)
                   (ext_minus remainder segment) point)
      else (1, Finite total'))"
  by pat_completeness auto
termination
  by (relation "measure (\<lambda>(cubic, threshold, i, total', remainder, prev). segments - i)") auto

declare closestProgressTo_loop.simps [simp del]

definition closestProgressTo :: "Cubic \<Rightarrow> ext_number \<Rightarrow> real \<times> ext_number" where
  "closestProgressTo cubic threshold =
     closestProgressTo_loop cubic threshold 1 0 threshold
       (mkPoint (anchor0X cubic) (anchor0Y cubic))"

definition LengthMeasurer_measureCubic :: "Cubic \<Rightarrow> ext_number" where
  "LengthMeasurer_measureCubic c = snd (closestProgressTo c PositiveInfinity)"

definition LengthMeasurer_findCubicCutPoint :: "Cubic \<Rightarrow> real \<Rightarrow> real" where
  "LengthMeasurer_findCubicCutPoint c m = fst (closestProgressTo c (Finite m))"

text \<open>
  The length the spec gives for \<open>LengthMeasurer\<close>, in its words: the cubic subdivided
  into three chords at equal parameter steps, the chord lengths summed.
\<close>

definition threeChordLength :: "Cubic \<Rightarrow> real" where
  "threeChordLength c =
     Point_getDistance (Point_minus (pointOnCurve c (1 / 3)) (pointOnCurve c 0)) +
     Point_getDistance (Point_minus (pointOnCurve c (2 / 3)) (pointOnCurve c (1 / 3))) +
     Point_getDistance (Point_minus (pointOnCurve c 1) (pointOnCurve c (2 / 3)))"

text \<open>
  A \<open>MeasuredCubic\<close>, with its field \<open>cubic\<close> named \<open>mcCubic\<close>. Its reference to
  the polygon is only read for the polygon's measurer, which the functions below take
  as an argument instead.
\<close>

record MeasuredCubic =
  mcCubic :: Cubic
  startOutlineProgress :: real
  endOutlineProgress :: real
  measuredSize :: real

definition newMeasuredCubic :: "Measurer \<Rightarrow> Cubic \<Rightarrow> real \<Rightarrow> real \<Rightarrow> MeasuredCubic" where
  "newMeasuredCubic msr c start end =
     \<lparr>mcCubic = c, startOutlineProgress = start, endOutlineProgress = end,
      measuredSize = measureCubic msr c\<rparr>"

definition updateProgressRange :: "MeasuredCubic \<Rightarrow> real \<Rightarrow> real \<Rightarrow> MeasuredCubic" where
  "updateProgressRange this start end =
     this\<lparr>startOutlineProgress := start, endOutlineProgress := end\<rparr>"

text \<open>
  \<open>cutAtProgress\<close> calls \<open>coerceIn\<close> with three numbers, which always returns; the
  \<open>Inl\<close> case below is never taken.
\<close>

definition cutAtProgress ::
  "Measurer \<Rightarrow> MeasuredCubic \<Rightarrow> real \<Rightarrow> js_error + MeasuredCubic \<times> MeasuredCubic" where
  "cutAtProgress msr this cutOutlineProgress =
     (case coerceIn (WithBounds cutOutlineProgress (startOutlineProgress this)
                       (endOutlineProgress this)) of
        Inl e \<Rightarrow> Inl e
      | Inr boundedCutOutlineProgress \<Rightarrow>
          (let outlineProgressSize = endOutlineProgress this - startOutlineProgress this;
               progressFromStart = boundedCutOutlineProgress - startOutlineProgress this;
               relativeProgress = progressFromStart / outlineProgressSize;
               t = findCubicCutPoint msr (mcCubic this) (relativeProgress * measuredSize this);
               (c1, c2) = split (mcCubic this) t
           in Inr (newMeasuredCubic msr c1 (startOutlineProgress this) boundedCutOutlineProgress,
                   newMeasuredCubic msr c2 boundedCutOutlineProgress (endOutlineProgress this))))"

record MeasuredPolygon =
  measurer :: Measurer
  measuredFeatures :: "ProgressableFeature list"
  measuredCubics :: "MeasuredCubic list"
  outlineProgress :: "real list"

text \<open>
  The loop of the constructor of \<open>MeasuredPolygon\<close>, over the indices of \<open>cubics\<close>. A
  read of \<open>outlineProgress\<close> past its end gives \<open>undefined\<close>, the difference is then
  NaN and the comparison false: the cubic is skipped.
\<close>

fun measuredCubics_loop ::
  "Measurer \<Rightarrow> Cubic list \<Rightarrow> real list \<Rightarrow> nat list \<Rightarrow> MeasuredCubic list \<times> real \<Rightarrow>
   MeasuredCubic list \<times> real" where
  "measuredCubics_loop msr cs op [] st = st"
| "measuredCubics_loop msr cs op (i # is) (acc, start) =
     (if i + 1 < length op \<and> op ! (i + 1) - op ! i > DistanceEpsilon then
        measuredCubics_loop msr cs op is
          (acc @ [newMeasuredCubic msr (cs ! i) start (op ! (i + 1))], op ! (i + 1))
      else measuredCubics_loop msr cs op is (acc, start))"

text \<open>
  The constructor. When no cubic is kept, \<open>measuredCubics[measuredCubics.length - 1]\<close>
  is \<open>undefined\<close> and the call of \<open>updateProgressRange\<close> on it throws a TypeError.
\<close>

definition newMeasuredPolygon ::
  "Measurer \<Rightarrow> ProgressableFeature list \<Rightarrow> Cubic list \<Rightarrow> real list \<Rightarrow>
   js_error + MeasuredPolygon" where
  "newMeasuredPolygon msr fs cs op =
     (let (acc, start) = measuredCubics_loop msr cs op [0 ..< length cs] ([], 0)
      in if acc = [] then Inl TypeError
         else Inr \<lparr>measurer = msr, measuredFeatures = fs,
                   measuredCubics =
                     butlast acc @ [updateProgressRange (last acc) (startOutlineProgress (last acc)) 1],
                   outlineProgress = op\<rparr>)"

text \<open>
  \<open>cutAndShift(cuttingPoint)\<close>. When no cubic contains the cutting point,
  \<open>targetIndex\<close> is \<open>-1\<close>, \<open>target\<close> is \<open>undefined\<close> and the call of
  \<open>cutAtProgress\<close> on it throws a TypeError.
\<close>

definition cutAndShift :: "MeasuredPolygon \<Rightarrow> real \<Rightarrow> js_error + MeasuredPolygon" where
  "cutAndShift this cuttingPoint =
     (if cuttingPoint < DistanceEpsilon then Inr this
      else
        (let targetIndex = findIndex
               (\<lambda>it. cuttingPoint \<ge> startOutlineProgress it \<and> cuttingPoint \<le> endOutlineProgress it)
               (measuredCubics this)
         in case js_read (measuredCubics this) targetIndex of
              None \<Rightarrow> Inl TypeError
            | Some target \<Rightarrow>
                (case cutAtProgress (measurer this) target cuttingPoint of
                   Inl e \<Rightarrow> Inl e
                 | Inr (b1, b2) \<Rightarrow>
                     (let n = length (measuredCubics this);
                          retCubics =
                            [mcCubic b2] @
                            map (\<lambda>i. mcCubic (measuredCubics this ! ((i + nat targetIndex) mod n)))
                              [1 ..< n] @
                            [mcCubic b1];
                          retOutlineProgress =
                            map (\<lambda>i. if i = 0 then 0
                                      else if i = n + 1 then 1
                                      else positiveModulo
                                        (endOutlineProgress
                                           (measuredCubics this ! ((nat targetIndex + i - 1) mod n)) -
                                         cuttingPoint) 1)
                              [0 ..< n + 2];
                          newFeatures =
                            map (\<lambda>f. \<lparr>pfProgress = positiveModulo (pfProgress f - cuttingPoint) 1,
                                       pfFeature = pfFeature f\<rparr>)
                              (measuredFeatures this)
                      in newMeasuredPolygon (measurer this) newFeatures retCubics
                           retOutlineProgress))))"

section \<open>DoubleMapper (float-mapping)\<close>

definition progressInRange :: "real \<Rightarrow> real \<Rightarrow> real \<Rightarrow> bool" where
  "progressInRange prog progressFrom progressTo =
     (if progressTo \<ge> progressFrom then prog \<ge> progressFrom \<and> prog \<le> progressTo
      else prog \<ge> progressFrom \<or> prog \<le> progressTo)"


record DoubleMapper =
  sourceValues :: "real list"
  targetValues :: "real list"

text \<open>The constructor, from the mappings \<open>{a, b}\<close> as pairs.\<close>

definition newDoubleMapper :: "(real \<times> real) list \<Rightarrow> DoubleMapper" where
  "newDoubleMapper mappings = \<lparr>sourceValues = map fst mappings, targetValues = map snd mappings\<rparr>"



definition Identity :: DoubleMapper where
  "Identity = newDoubleMapper [(0, 0), (1 / 2, 1 / 2)]"


definition cyclicallyIncreasing :: "real list \<Rightarrow> bool" where
  "cyclicallyIncreasing vs = sorted_wrt (<) (map (\<lambda>v. positiveModulo (v - hd vs) 1) vs)"







section \<open>Feature mapping (feature-mapping)\<close>

text \<open>
  A \<open>DistanceVertex\<close> refers to two \<open>ProgressableFeature\<close> objects, and the sets
  \<open>usedF1\<close> and \<open>usedF2\<close> of the \<open>MappingHelper\<close> hold such objects by identity. An
  object is named here by its index in the list of corners it comes from (the lists
  \<open>features1\<close> and \<open>features2\<close> of \<open>doMapping\<close>, whose entries are distinct objects
  when \<open>measurePolygon\<close> or \<open>cutAndShift\<close> made them). The fields \<open>distance\<close>,
  \<open>f1\<close> and \<open>f2\<close> are \<open>dvDistance\<close>, \<open>dvF1\<close> and \<open>dvF2\<close>.
\<close>

record DistanceVertex =
  dvDistance :: real
  dvF1 :: nat
  dvF2 :: nat

definition IdentityMapping :: "(real \<times> real) list" where
  "IdentityMapping = [(0, 0), (1 / 2, 1 / 2)]"

definition progressDistance :: "real \<Rightarrow> real \<Rightarrow> real" where
  "progressDistance q1 q2 = (let it = \<bar>q1 - q2\<bar> in min it (1 - it))"

text \<open>
  \<open>cubics.at(0)!\<close> and \<open>cubics.at(-1)!\<close> are \<open>undefined\<close> for a feature without
  cubics, and reading \<open>anchor0X\<close> from \<open>undefined\<close> throws a TypeError.
\<close>

definition featureRepresentativePoint :: "Feature \<Rightarrow> js_error + Point" where
  "featureRepresentativePoint f =
     (if cubics f = [] then Inl TypeError
      else Inr (mkPoint ((anchor0X (hd (cubics f)) + anchor1X (last (cubics f))) / 2)
                        ((anchor0Y (hd (cubics f)) + anchor1Y (last (cubics f))) / 2)))"

fun differentConvexity :: "Feature \<Rightarrow> Feature \<Rightarrow> bool" where
  "differentConvexity (Corner cs1 convex1) (Corner cs2 convex2) = (convex1 \<noteq> convex2)"
| "differentConvexity g1 g2 = False"

definition featureDistSquared :: "Feature \<Rightarrow> Feature \<Rightarrow> js_error + real" where
  "featureDistSquared g1 g2 =
     (if differentConvexity g1 g2 then Inr MAX_VALUE
      else
        (case featureRepresentativePoint g1 of
           Inl e \<Rightarrow> Inl e
         | Inr r1 \<Rightarrow>
             (case featureRepresentativePoint g2 of
                Inl e \<Rightarrow> Inl e
              | Inr r2 \<Rightarrow> Inr (Point_getDistanceSquared (Point_minus r1 r2)))))"

text \<open>The state of a \<open>MappingHelper\<close>.\<close>

record MappingHelper =
  mapping :: "(real \<times> real) list"
  usedF1 :: "nat set"
  usedF2 :: "nat set"

definition newMappingHelper :: MappingHelper where
  "newMappingHelper = \<lparr>mapping = [], usedF1 = {}, usedF2 = {}\<rparr>"

text \<open>
  \<open>addMapping(f1, f2)\<close>, with the two features given by index and by progress. The
  destructuring of \<open>this.mapping[...]\<close> throws a TypeError when the index is outside
  the array.
\<close>

definition addMapping ::
  "MappingHelper \<Rightarrow> nat \<times> real \<Rightarrow> nat \<times> real \<Rightarrow> js_error + MappingHelper" where
  "addMapping this f1 f2 =
     (if fst f1 \<in> usedF1 this \<or> fst f2 \<in> usedF2 this then Inr this
      else
        (let index = findIndex (\<lambda>m. fst m = snd f1) (mapping this);
             insertionIndex = - index - 1;
             n = int (length (mapping this));
             added = this\<lparr>mapping := js_splice_insert (mapping this) insertionIndex (snd f1, snd f2),
                          usedF1 := insert (fst f1) (usedF1 this),
                          usedF2 := insert (fst f2) (usedF2 this)\<rparr>
         in if n \<ge> 1 then
              (case js_read (mapping this) (js_int_rem (insertionIndex + n - 1) n) of
                 None \<Rightarrow> Inl TypeError
               | Some (before1, before2) \<Rightarrow>
                   (case js_read (mapping this) (js_int_rem insertionIndex n) of
                      None \<Rightarrow> Inl TypeError
                    | Some (after1, after2) \<Rightarrow>
                        if progressDistance (snd f1) before1 < DistanceEpsilon \<or>
                           progressDistance (snd f1) after1 < DistanceEpsilon \<or>
                           progressDistance (snd f2) before2 < DistanceEpsilon \<or>
                           progressDistance (snd f2) after2 < DistanceEpsilon
                        then Inr this
                        else if n > 1 \<and> \<not> progressInRange (snd f2) before2 after2 then Inr this
                        else Inr added))
            else Inr added))"

text \<open>The two nested loops of \<open>doMapping\<close> that fill \<open>distanceVertexList\<close>.\<close>

fun distanceVertices ::
  "ProgressableFeature list \<Rightarrow> ProgressableFeature list \<Rightarrow> (nat \<times> nat) list \<Rightarrow>
   js_error + DistanceVertex list" where
  "distanceVertices features1 features2 [] = Inr []"
| "distanceVertices features1 features2 ((i, j) # rest) =
     (case featureDistSquared (pfFeature (features1 ! i)) (pfFeature (features2 ! j)) of
        Inl e \<Rightarrow> Inl e
      | Inr d \<Rightarrow>
          (case distanceVertices features1 features2 rest of
             Inl e \<Rightarrow> Inl e
           | Inr vs \<Rightarrow>
               Inr (if d \<noteq> MAX_VALUE then \<lparr>dvDistance = d, dvF1 = i, dvF2 = j\<rparr> # vs else vs)))"

text \<open>\<open>distanceVertexList.forEach(({f1, f2}) => helper.addMapping(f1, f2))\<close>.\<close>

fun addMappings ::
  "ProgressableFeature list \<Rightarrow> ProgressableFeature list \<Rightarrow> DistanceVertex list \<Rightarrow>
   MappingHelper \<Rightarrow> js_error + MappingHelper" where
  "addMappings features1 features2 [] helper = Inr helper"
| "addMappings features1 features2 (v # vs) helper =
     (case addMapping helper (dvF1 v, pfProgress (features1 ! dvF1 v))
                             (dvF2 v, pfProgress (features2 ! dvF2 v)) of
        Inl e \<Rightarrow> Inl e
      | Inr helper' \<Rightarrow> addMappings features1 features2 vs helper')"

text \<open>
  \<open>doMapping\<close>. The array is sorted by distance; \<open>Array.prototype.sort\<close> is stable
  (since ECMAScript 2019), as is \<open>sort_key\<close>.
\<close>

definition doMapping ::
  "ProgressableFeature list \<Rightarrow> ProgressableFeature list \<Rightarrow> js_error + (real \<times> real) list" where
  "doMapping features1 features2 =
     (case distanceVertices features1 features2
             (List.product [0 ..< length features1] [0 ..< length features2]) of
        Inl e \<Rightarrow> Inl e
      | Inr unsorted \<Rightarrow>
          (let distanceVertexList = sort_key dvDistance unsorted
           in if length distanceVertexList = 0 then Inr IdentityMapping
              else if length distanceVertexList = 1 then
                (let q1 = pfProgress (features1 ! dvF1 (distanceVertexList ! 0));
                     q2 = pfProgress (features2 ! dvF2 (distanceVertexList ! 0))
                 in Inr [(q1, q2), (js_rem (q1 + 1 / 2) 1, js_rem (q2 + 1 / 2) 1)])
              else
                (case addMappings features1 features2 distanceVertexList newMappingHelper of
                   Inl e \<Rightarrow> Inl e
                 | Inr helper \<Rightarrow> Inr (mapping helper))))"

definition featureMapper ::
  "ProgressableFeature list \<Rightarrow> ProgressableFeature list \<Rightarrow> js_error + DoubleMapper" where
  "featureMapper features1 features2 =
     (let filteredFeatures1 = filter (\<lambda>f. isCorner (pfFeature f)) features1;
          filteredFeatures2 = filter (\<lambda>f. isCorner (pfFeature f)) features2
      in case doMapping filteredFeatures1 filteredFeatures2 of
           Inl e \<Rightarrow> Inl e
         | Inr featureProgressMapping \<Rightarrow> Inr (newDoubleMapper featureProgressMapping))"

text \<open>
  The property of claim C5, in its words: going through the pairs by increasing \<open>a\<close>,
  the \<open>b\<close> values increase around the circle.
\<close>

definition orderPreserving :: "(real \<times> real) list \<Rightarrow> bool" where
  "orderPreserving pairs \<longleftrightarrow> cyclicallyIncreasing (map snd (sort_key fst pairs))"

section \<open>Morph (morph.ts)\<close>

text \<open>
  \<open>morphMatch\<close> is a list of objects \<open>{a, b}\<close>; a pair stands for one of them, \<open>fst\<close>
  for \<open>a\<close> and \<open>snd\<close> for \<open>b\<close>.
\<close>

record Morph =
  morphMatch :: "(Cubic \<times> Cubic) list"

text \<open>
  The loop of \<open>asCubics\<close>, with its three variables \<open>ret\<close>, \<open>firstCubic\<close> and
  \<open>lastCubic\<close> (\<open>None\<close> for \<open>null\<close>) as the state.
\<close>

fun asCubics_loop ::
  "real \<Rightarrow> (Cubic \<times> Cubic) list \<Rightarrow> Cubic list \<times> Cubic option \<times> Cubic option \<Rightarrow>
   Cubic list \<times> Cubic option \<times> Cubic option" where
  "asCubics_loop progress [] st = st"
| "asCubics_loop progress (m # ms) (ret, firstCubic, lastCubic) =
     (let cubic = interpolateCubic (fst m) (snd m) progress;
          firstCubic' = (if firstCubic = None then Some cubic else firstCubic);
          ret' = (case lastCubic of None \<Rightarrow> ret | Some l \<Rightarrow> ret @ [l])
      in asCubics_loop progress ms (ret', firstCubic', Some cubic))"

definition asCubics :: "Morph \<Rightarrow> real \<Rightarrow> Cubic list" where
  "asCubics m progress =
     (case asCubics_loop progress (morphMatch m) ([], None, None) of
        (ret, Some firstCubic, Some lastCubic) \<Rightarrow> ret @ [closingCubic lastCubic firstCubic]
      | (ret, _, _) \<Rightarrow> ret)"

text \<open>
  \<open>forEachCubic(progress, mutableCubic, callback)\<close>: the state is the scratch cubic and
  whatever the callback keeps (\<open>'s\<close>); the callback reads the scratch cubic at the
  moment of the call.
\<close>

fun forEachCubic_loop ::
  "real \<Rightarrow> (Cubic \<times> Cubic) list \<Rightarrow> (Cubic \<Rightarrow> 's \<Rightarrow> 's) \<Rightarrow> Cubic \<times> 's \<Rightarrow> Cubic \<times> 's" where
  "forEachCubic_loop progress [] callback st = st"
| "forEachCubic_loop progress (m # ms) callback (mutableCubic, s) =
     (let mutableCubic' = MutableCubic_interpolate mutableCubic (fst m) (snd m) progress
      in forEachCubic_loop progress ms callback (mutableCubic', callback mutableCubic' s))"

definition forEachCubic ::
  "Morph \<Rightarrow> real \<Rightarrow> Cubic \<Rightarrow> (Cubic \<Rightarrow> 's \<Rightarrow> 's) \<Rightarrow> 's \<Rightarrow> Cubic \<times> 's" where
  "forEachCubic m progress mutableCubic callback s =
     forEachCubic_loop progress (morphMatch m) callback (mutableCubic, s)"

text \<open>The values a callback sees, in order: the callback that appends each to a log.\<close>

definition delivered :: "Morph \<Rightarrow> real \<Rightarrow> Cubic \<Rightarrow> Cubic list" where
  "delivered m progress mutableCubic =
     snd (forEachCubic m progress mutableCubic (\<lambda>c log. log @ [c]) [])"

text \<open>The cubics interpolated from the pairs, before any closing step.\<close>

definition interpolated :: "(Cubic \<times> Cubic) list \<Rightarrow> real \<Rightarrow> Cubic list" where
  "interpolated ms progress = map (\<lambda>m. interpolateCubic (fst m) (snd m) progress) ms"

section \<open>Inputs of the worked examples\<close>

text \<open>
  The star with two vertices per radius, outer radius 4 and inner radius 3 around the
  origin is the rhombus with the outer vertices (4,0) and (-4,0) and the inner vertices
  (0,3) and (0,-3); its sides have length 5. The rounding list asks for no rounding at
  the outer vertices and for radius 1 at the inner ones.
\<close>

definition rhombusVertices :: "real list" where
  "rhombusVertices = [4, 0, 0, 3, - 4, 0, 0, - 3]"

definition rhombusRounding :: "CornerRounding list" where
  "rhombusRounding =
     [Unrounded, \<lparr>radius = 1, smoothing = 0\<rparr>, Unrounded, \<lparr>radius = 1, smoothing = 0\<rparr>]"

text \<open>
  Two lists of three convex corners each, every corner a single point cubic. The first
  outline passes (0,0), (10,0) and (5,8) at the progress values 0.1, 0.5 and 0.8; the
  second passes (0,0) at 0.1, (5,10) at 0.3 and (10,1) at 0.5. The squared distances
  between the corners of the two lists are 0, 1 and 4 for the three pairs of nearby
  corners and at least 74 for every other pair, so no two of the three nearest pairs
  tie in the sort.
\<close>

definition pointCorner :: "real \<Rightarrow> real \<Rightarrow> real \<Rightarrow> ProgressableFeature" where
  "pointCorner prog a b =
     \<lparr>pfProgress = prog, pfFeature = Corner [mkCubic a b a b a b a b] True\<rparr>"

definition crossingFeatures1 :: "ProgressableFeature list" where
  "crossingFeatures1 =
     [pointCorner (1 / 10) 0 0, pointCorner (1 / 2) 10 0, pointCorner (4 / 5) 5 8]"

definition crossingFeatures2 :: "ProgressableFeature list" where
  "crossingFeatures2 =
     [pointCorner (1 / 10) 0 0, pointCorner (3 / 10) 5 10, pointCorner (1 / 2) 10 1]"

section \<open>The invariant of the loops of buildCubicList\<close>

text \<open>
  Between any two steps of \<open>buildCubicList\<close>: while no cubic is held back nothing has
  been pushed; afterwards the first cubic of what will be the result (the first pushed
  one, or the one held back) starts at the anchor0 of \<open>firstCubic\<close>.
\<close>

fun build_inv :: "build_state \<Rightarrow> bool" where
  "build_inv (result, None, None) = (result = [])"
| "build_inv (result, Some fc, Some lc) =
     (anchor0X (hd (result @ [lc])) = anchor0X fc \<and> anchor0Y (hd (result @ [lc])) = anchor0Y fc)"
| "build_inv (result, _, _) = False"

section \<open>Properties of Morph\<close>

lemma MutableCubic_interpolate_eq:
  "MutableCubic_interpolate this c1 c2 progress = interpolateCubic c1 c2 progress"
  by (simp add: MutableCubic_interpolate_def interpolateCubic_def mkCubic_def)

lemma asCubics_loop_run:
  "ms \<noteq> [] \<Longrightarrow>
   asCubics_loop progress ms (ret, firstCubic, lastCubic) =
     (ret @ (case lastCubic of None \<Rightarrow> [] | Some l \<Rightarrow> [l]) @ butlast (interpolated ms progress),
      (if firstCubic = None then Some (hd (interpolated ms progress)) else firstCubic),
      Some (last (interpolated ms progress)))"
proof (induction ms arbitrary: ret firstCubic lastCubic)
  case Nil
  then show ?case by simp
next
  case (Cons m ms)
  show ?case
  proof (cases "ms = []")
    case True
    then show ?thesis
      by (cases lastCubic) (simp_all add: interpolated_def Let_def)
  next
    case False
    then show ?thesis
      using Cons.IH [OF False]
      by (cases lastCubic) (simp_all add: interpolated_def Let_def)
  qed
qed

lemma asCubics_eq:
  "asCubics m progress =
     (if morphMatch m = [] then []
      else butlast (interpolated (morphMatch m) progress) @
           [closingCubic (last (interpolated (morphMatch m) progress))
                         (hd (interpolated (morphMatch m) progress))])"
proof (cases "morphMatch m = []")
  case True
  then show ?thesis by (simp add: asCubics_def)
next
  case False
  then show ?thesis
    by (simp add: asCubics_def asCubics_loop_run)
qed

lemma forEachCubic_loop_fold:
  "forEachCubic_loop progress ms callback (mutableCubic, s) =
     ((if ms = [] then mutableCubic else last (interpolated ms progress)),
      fold callback (interpolated ms progress) s)"
  by (induction ms arbitrary: mutableCubic s)
     (simp_all add: interpolated_def MutableCubic_interpolate_eq Let_def)

lemma fold_append_log: "fold (\<lambda>c log. log @ [c]) xs log0 = log0 @ xs"
  by (induction xs arbitrary: log0) simp_all

lemma delivered_eq: "delivered m progress mutableCubic = interpolated (morphMatch m) progress"
  by (simp add: delivered_def forEachCubic_def forEachCubic_loop_fold fold_append_log)

lemma closingCubic_update:
  "closingCubic l f = l\<lparr>anchor1X := anchor0X f, anchor1Y := anchor0Y f\<rparr>"
  by (simp add: closingCubic_def mkCubic_def)

text \<open>
  Claim C1, as amended. \<open>asCubics(progress)\<close> returns a list of exactly
  \<open>|morphMatch|\<close> cubics, whatever the progress: the loop holds every interpolated
  cubic back by one step, so the closing cubic stands in the place of the last
  interpolated cubic and is not an additional element.
\<close>

theorem asCubics_length_fixed:
  "length (asCubics m progress) = length (morphMatch m) \<and>
   length (asCubics m progress) = length (asCubics m progress')"
  by (simp add: asCubics_eq interpolated_def)

text \<open>
  The claim as stated (length \<open>|morphMatch| + 1\<close>) fails for a morph of one pair: the
  result has one cubic, not two.
\<close>

theorem asCubics_length_counterexample:
  "length (asCubics \<lparr>morphMatch = [(mkCubic 0 0 1 0 2 0 3 0, mkCubic 0 0 1 0 2 0 3 0)]\<rparr> 0)
   \<noteq> length (morphMatch \<lparr>morphMatch = [(mkCubic 0 0 1 0 2 0 3 0, mkCubic 0 0 1 0 2 0 3 0)]\<rparr>) + 1"
  by (simp add: asCubics_def Let_def)

text \<open>
  Claim C7, as amended. \<open>forEachCubic\<close> hands the callback as many cubics as
  \<open>asCubics(progress)\<close> returns, and the same values at every position but the last;
  the last value delivered is the last interpolated cubic itself, while the last cubic
  of \<open>asCubics\<close> is that cubic with anchor1 replaced by the anchor0 of the first one.
  The scratch cubic passed in has no influence.
\<close>

theorem forEachCubic_asCubics:
  "length (delivered m progress mutableCubic) = length (asCubics m progress) \<and>
   asCubics m progress =
     (if morphMatch m = [] then []
      else butlast (delivered m progress mutableCubic) @
           [(last (delivered m progress mutableCubic))
              \<lparr>anchor1X := anchor0X (hd (delivered m progress mutableCubic)),
               anchor1Y := anchor0Y (hd (delivered m progress mutableCubic))\<rparr>])"
  by (simp add: delivered_eq asCubics_eq closingCubic_update interpolated_def)

text \<open>
  The claim as stated (the same 8-tuples) fails for a morph of one pair whose cubic
  is the straight line from (0,0) to (3,0): the callback sees the line, \<open>asCubics\<close>
  returns the cubic closed back onto (0,0).
\<close>

theorem forEachCubic_asCubics_counterexample:
  "delivered \<lparr>morphMatch = [(mkCubic 0 0 1 0 2 0 3 0, mkCubic 0 0 1 0 2 0 3 0)]\<rparr> 0
     (mkCubic 0 0 0 0 0 0 0 0)
   \<noteq> asCubics \<lparr>morphMatch = [(mkCubic 0 0 1 0 2 0 3 0, mkCubic 0 0 1 0 2 0 3 0)]\<rparr> 0"
  by (simp add: delivered_eq asCubics_eq interpolated_def interpolateCubic_def
      closingCubic_def mkCubic_def interpolate_def)

section \<open>Arithmetic on the circle\<close>

lemma positiveModulo_frac: "positiveModulo v 1 = frac v"
proof (cases "0 \<le> v")
  case True
  have "0 \<le> frac v" "frac v < 1" by (simp_all add: frac_lt_1)
  then have "\<lfloor>frac v + 1\<rfloor> = 1" by linarith
  then show ?thesis using True
    by (simp add: positiveModulo_def js_rem_def js_trunc_def frac_def)
next
  case False
  define r where "r = v - of_int \<lceil>v\<rceil>"
  have r: "- 1 < r" "r \<le> 0" unfolding r_def by linarith+
  have j: "js_rem v 1 = r" using False by (simp add: js_rem_def js_trunc_def r_def)
  show ?thesis
  proof (cases "r = 0")
    case True
    then have "v = of_int \<lceil>v\<rceil>" by (simp add: r_def)
    then have "frac v = 0" by (metis frac_of_int)
    then show ?thesis using True j by (simp add: positiveModulo_def js_rem_def js_trunc_def)
  next
    case False
    with r have r': "0 < r + 1" "r + 1 < 1" by simp_all
    then have fl: "\<lfloor>r + 1\<rfloor> = 0" by linarith
    have "frac v = r + 1"
      unfolding frac_unique_iff using r' by (simp add: r_def)
    then show ?thesis using j r' fl by (simp add: positiveModulo_def js_rem_def js_trunc_def)
  qed
qed



lemma frac_neg_unit: "- 1 \<le> x \<Longrightarrow> x < 0 \<Longrightarrow> frac x = x + 1"
  by (simp add: frac_unique_iff)

lemma increasing_Cons2:
  "sorted_wrt (<) (a # b # cs) \<longleftrightarrow> a < b \<and> sorted_wrt (<) (b # (cs :: real list))"
  "sorted_wrt (<) [a] \<longleftrightarrow> True"
  by auto

section \<open>Properties of RoundedPolygon.buildCubicList\<close>

lemma build_inv_inner: "build_inv st \<Longrightarrow> build_inv (buildCubicList_inner cs st)"
proof (induction cs arbitrary: st)
  case Nil
  then show ?case by simp
next
  case (Cons c cs)
  obtain result f l where st: "st = (result, f, l)" by (metis prod_cases3)
  show ?case
  proof (cases "zeroLength c")
    case True
    have "build_inv (result, f,
            (case l of None \<Rightarrow> None
             | Some l' \<Rightarrow> Some (l'\<lparr>anchor1X := anchor1X c, anchor1Y := anchor1Y c\<rparr>)))"
      using Cons.prems st by (cases f; cases l; cases result) simp_all
    from Cons.IH [OF this] show ?thesis using True st by simp
  next
    case False
    have "build_inv ((case l of None \<Rightarrow> result | Some l' \<Rightarrow> result @ [l']),
            (if f = None then Some c else f), Some c)"
      using Cons.prems st by (cases f; cases l; cases result) simp_all
    from Cons.IH [OF this] show ?thesis using False st by simp
  qed
qed

lemma build_inv_outer:
  "build_inv st \<Longrightarrow> build_inv (buildCubicList_outer fs splitStart splitEnd i st)"
proof (induction fs splitStart splitEnd i st rule: buildCubicList_outer.induct)
  case (1 fs splitStart splitEnd i st)
  show ?case
  proof (cases "i \<le> length fs")
    case False
    then show ?thesis using "1.prems" by (simp add: buildCubicList_outer.simps)
  next
    case True
    show ?thesis
    proof (cases "featureCubicsAt fs splitStart splitEnd i")
      case None
      then show ?thesis using True "1.prems" by (simp add: buildCubicList_outer.simps)
    next
      case (Some featureCubics)
      have "build_inv (buildCubicList_inner featureCubics st)"
        using "1.prems" by (rule build_inv_inner)
      from "1.IH" [OF True Some this] show ?thesis
        using True Some by (subst buildCubicList_outer.simps) simp
    qed
  qed
qed

lemma closed_result:
  assumes "build_inv (result, f, l)"
  shows "(case (result, f, l) of
           (result, Some firstCubic, Some lastCubic) \<Rightarrow> result @ [closingCubic lastCubic firstCubic]
         | (result, _, _) \<Rightarrow> result @ [mkCubic a b a b a b a b]) = out \<Longrightarrow>
         out \<noteq> [] \<and> anchor1X (last out) = anchor0X (hd out) \<and> anchor1Y (last out) = anchor0Y (hd out)"
  using assms
  by (cases f; cases l; cases result) (auto simp: closingCubic_def mkCubic_def)

text \<open>
  Claim C3. Whatever the features and the center, the list that \<open>buildCubicList\<close>
  returns is not empty, and the anchor1 of its last cubic is equal, in both
  coordinates, to the anchor0 of its first cubic.
\<close>

theorem buildCubicList_closed:
  "buildCubicList fs cntr \<noteq> [] \<and>
   anchor1X (last (buildCubicList fs cntr)) = anchor0X (hd (buildCubicList fs cntr)) \<and>
   anchor1Y (last (buildCubicList fs cntr)) = anchor0Y (hd (buildCubicList fs cntr))"
proof -
  define sp where "sp = (if length fs > 0 \<and> length (cubics (fs ! 0)) = 3 then
               (let centerCubic = cubics (fs ! 0) ! 1;
                    (start, end) = split centerCubic (1 / 2)
                in (Some [cubics (fs ! 0) ! 0, start], Some [end, cubics (fs ! 0) ! 2]))
             else (None, None))"
  obtain s e where sp: "sp = (s, e)" by (cases sp)
  obtain result f l where run: "buildCubicList_outer fs s e 0 ([], None, None) = (result, f, l)"
    by (metis prod_cases3)
  have "build_inv ([], None, None)" by simp
  then have "build_inv (buildCubicList_outer fs s e 0 ([], None, None))" by (rule build_inv_outer)
  then have inv: "build_inv (result, f, l)" unfolding run .
  have eq: "buildCubicList fs cntr =
      (case (result, f, l) of
           (result, Some firstCubic, Some lastCubic) \<Rightarrow> result @ [closingCubic lastCubic firstCubic]
         | (result, _, _) \<Rightarrow> result @ [mkCubic (px cntr) (py cntr) (px cntr) (py cntr)
                               (px cntr) (py cntr) (px cntr) (py cntr)])"
    unfolding buildCubicList_def sp_def [symmetric] sp by (simp add: run)
  from closed_result [OF inv eq [symmetric]] show ?thesis .
qed

section \<open>Properties of double-precision rounding\<close>

lemma binade_eq:
  assumes "2 powr of_int e \<le> \<bar>v\<bar>" "\<bar>v\<bar> < 2 powr of_int (e + 1)"
  shows "binade v = e"
proof -
  have pos: "0 < \<bar>v\<bar>" using assms(1) by (smt (verit) powr_gt_zero)
  have "of_int e \<le> log 2 \<bar>v\<bar>" using assms(1) pos by (simp add: le_log_iff)
  moreover have "log 2 \<bar>v\<bar> < of_int (e + 1)" using assms(2) pos by (simp add: log_less_iff)
  ultimately show ?thesis unfolding binade_def by (simp add: floor_eq_iff)
qed



lemma binade_one: "1 \<le> v \<Longrightarrow> v < 2 \<Longrightarrow> binade v = 0"
  by (rule binade_eq) simp_all








text \<open>
  The steps of \<open>positiveModulo(0.001 - 0, 1)\<close>, the size \<open>linearMap\<close> computes for a
  segment from 0 to 0.001: adding 1 rounds to a multiple of \<open>2^-52\<close> and loses the low
  bits of 0.001, so that the size comes out below the literal \<open>0.001\<close> it is compared
  with.
\<close>

lemma double_thousandth: "double (1 / 1000) = 1152921504606847 / 2 ^ 60"
  by (simp add: double_def ulp_def binade_eq [of "- 10"] powr_minus roundTiesToEven_def Let_def)

lemma double_thousandth_minus_zero:
  "double (1152921504606847 / 2 ^ 60 - 0) = 1152921504606847 / 2 ^ 60"
  by (simp add: double_def ulp_def binade_eq [of "- 10"] powr_minus roundTiesToEven_def Let_def)

lemma double_thousandth_plus_one:
  "double (js_rem (1152921504606847 / 2 ^ 60) 1 + 1) = 2254051613498933 / 2 ^ 51"
  by (simp add: js_rem_def js_trunc_def double_def ulp_def binade_one roundTiesToEven_def Let_def)

lemma segment_size_thousandth:
  "positiveModulo_double (double (double (1 / 1000) - 0)) 1 = 2251799813685 / 2 ^ 51"
  unfolding double_thousandth double_thousandth_minus_zero positiveModulo_double_def
    double_thousandth_plus_one
  by (simp add: js_rem_def js_trunc_def)

lemma segment_size_rounds_below:
  "positiveModulo_double (double (double (1 / 1000) - 0)) 1 < double (1 / 1000)"
  by (subst segment_size_thousandth, subst double_thousandth) simp

section \<open>Properties of RoundedCorner.getCubics\<close>

text \<open>In exact arithmetic a line from a point to itself has its controls at that point.\<close>

lemma straightLine_point: "straightLine a b a b = mkCubic a b a b a b a b"
  by (simp add: straightLine_def interpolate_def mkCubic_def algebra_simps)





section \<open>Properties of coerceIn\<close>

text \<open>
  Claim C9, as amended. \<open>coerceIn\<close> throws exactly when \<open>max\<close> is left out and the
  second argument is not a range object (\<open>null\<close> included). Given three numbers it
  never throws: bounds
  in the wrong order are swapped and the value is clamped between the smaller and the
  larger one. A range object is used as it is, also when its start exceeds its end.
\<close>

theorem coerceIn_throws_iff:
  "(isl (coerceIn c) \<longleftrightarrow>
      (\<exists>v. c = SingleArgument v NotARange \<or> c = SingleArgument v NullArgument)) \<and>
   coerceIn (WithBounds v mn mx) = Inr (max (min mn mx) (min (max mn mx) v)) \<and>
   coerceIn (SingleArgument v (RangeObject start endInclusive)) = Inr (max start (min endInclusive v))"
proof -
  have "isl (coerceIn c) \<longleftrightarrow>
      (\<exists>v. c = SingleArgument v NotARange \<or> c = SingleArgument v NullArgument)"
    by (cases c rule: coerceIn.cases) (simp_all add: Let_def split: prod.splits)
  moreover have "coerceIn (WithBounds v mn mx) = Inr (max (min mn mx) (min (max mn mx) v))"
    by (simp add: Let_def min_def max_def)
  ultimately show ?thesis by simp
qed

text \<open>
  The claim as stated fails for \<open>coerceIn(5, 10, 0)\<close>, where \<open>min > max\<close>: the call
  returns 5.
\<close>

theorem coerceIn_counterexample: "coerceIn (WithBounds 5 10 0) = Inr 5"
  by simp

section \<open>Properties of MeasuredPolygon.cutAndShift\<close>

text \<open>
  Claim C10. For a cutting point below \<open>DistanceEpsilon\<close>, \<open>cutAndShift\<close> returns the
  polygon it was called on: the same measurer, features, cubics and progress values.
\<close>

theorem cutAndShift_below_epsilon:
  "cuttingPoint < DistanceEpsilon \<Longrightarrow> cutAndShift p cuttingPoint = Inr p"
  by (simp add: cutAndShift_def)

theorem cutAndShift_below_epsilon_witness:
  "cutAndShift
     \<lparr>measurer = \<lparr>measureCubic = (\<lambda>c. 3), findCubicCutPoint = (\<lambda>c m. m / 3)\<rparr>,
      measuredFeatures = [],
      measuredCubics = [\<lparr>mcCubic = mkCubic 0 0 1 0 2 0 3 0, startOutlineProgress = 0,
                         endOutlineProgress = 1, measuredSize = 3\<rparr>],
      outlineProgress = [0, 1]\<rparr> 0
   = Inr
     \<lparr>measurer = \<lparr>measureCubic = (\<lambda>c. 3), findCubicCutPoint = (\<lambda>c m. m / 3)\<rparr>,
      measuredFeatures = [],
      measuredCubics = [\<lparr>mcCubic = mkCubic 0 0 1 0 2 0 3 0, startOutlineProgress = 0,
                         endOutlineProgress = 1, measuredSize = 3\<rparr>],
      outlineProgress = [0, 1]\<rparr>"
proof -
  have "(0::real) < DistanceEpsilon" by (simp add: DistanceEpsilon_def)
  then show ?thesis by (rule cutAndShift_below_epsilon)
qed

section \<open>Properties of LengthMeasurer\<close>

lemma closestProgressTo_infinity:
  "closestProgressTo c PositiveInfinity =
     (1, Finite (Point_getDistance (Point_minus (pointOnCurve c (1 / 3))
                                      (mkPoint (anchor0X c) (anchor0Y c))) +
                 Point_getDistance (Point_minus (pointOnCurve c (2 / 3)) (pointOnCurve c (1 / 3)))))"
proof -
  have s3: "closestProgressTo_loop c PositiveInfinity (Suc (Suc (Suc 0))) t PositiveInfinity q =
      (1, Finite t)" for t q
    by (subst closestProgressTo_loop.simps) (simp add: segments_def)
  have s2: "closestProgressTo_loop c PositiveInfinity (Suc (Suc 0)) t PositiveInfinity q =
      (1, Finite (t + Point_getDistance (Point_minus (pointOnCurve c (2 / 3)) q)))" for t q
    by (subst closestProgressTo_loop.simps) (simp add: segments_def Let_def s3)
  show ?thesis
    unfolding closestProgressTo_def
    by (subst closestProgressTo_loop.simps) (simp add: segments_def Let_def s2)
qed

text \<open>
  Claim C4 at the straight line from (0,0) to (3,0), whose points at the parameters
  1/3 and 2/3 are (1,0) and (2,0). The three chords of the claim sum to 3;
  \<open>measureCubic\<close> returns 2, the sum of the first two chords, because its loop ends
  before the step \<open>i = 3\<close> that would add the chord up to the parameter 1.
\<close>

theorem measureCubic_line:
  "LengthMeasurer_measureCubic (mkCubic 0 0 1 0 2 0 3 0) = Finite 2 \<and>
   threeChordLength (mkCubic 0 0 1 0 2 0 3 0) = 3"
  by (simp add: LengthMeasurer_measureCubic_def closestProgressTo_infinity pointOnCurve_def
      threeChordLength_def Let_def mkCubic_def mkPoint_def Point_minus_def Point_getDistance_def)

section \<open>Properties of RoundedPolygon.star\<close>

lemma star_vertices_rhombus: "starVerticesFromNumVerts 2 4 3 0 0 = rhombusVertices"
proof -
  have c3: "cos (pi * 3 / 2) = 0" using cos_3over2_pi by (simp add: mult.commute)
  have s3: "sin (pi * 3 / 2) = - 1" using sin_3over2_pi by (simp add: mult.commute)
  show ?thesis
    by (simp add: starVerticesFromNumVerts_def radialToCartesian_def upt_rec
      Point_plus_def Point_times_def mkPoint_def Let_def c3 s3 rhombusVertices_def)
qed

lemma concat_pairs_length: "length (concat (map (\<lambda>i. [f i, g i]) [0 ..< n])) = 2 * n"
  by (induction n) simp_all

lemma concat_pairs_nth:
  "i < n \<Longrightarrow> concat (map (\<lambda>i. [f i, g i]) [0 ..< n]) ! (2 * i) = f i"
proof (induction n)
  case 0
  then show ?case by simp
next
  case (Suc n)
  show ?case
  proof (cases "i < n")
    case True
    then have "2 * i < length (concat (map (\<lambda>i. [f i, g i]) [0 ..< n]))"
      by (simp add: concat_pairs_length)
    then show ?thesis using Suc.IH [OF True] by (simp add: nth_append)
  next
    case False
    with Suc.prems have "i = n" by simp
    then show ?thesis by (simp add: nth_append concat_pairs_length)
  qed
qed

lemma fromVertices_corner_feature:
  assumes "i < length vertices div 2"
  shows "cubics (polygonFeatures
            (fromVertices vertices rounding' perVertexRounding centerX centerY) ! (2 * i)) =
     cornersOf (length vertices div 2) (roundedCornersOf vertices rounding' perVertexRounding)
       (cutAdjustsOf vertices (roundedCornersOf vertices rounding' perVertexRounding)) ! i"
  by (simp add: fromVertices_def fromFeatures_def newRoundedPolygon_def tempFeaturesOf_def Let_def
      concat_pairs_nth [OF assms])

lemma cornersOf_nth:
  "i < n \<Longrightarrow> cornersOf n corners ratios ! i =
     snd (getCubics (corners ! i) (allowedCutsOf n corners ratios i ! 0)
            (allowedCutsOf n corners ratios i ! 1))"
  by (simp add: cornersOf_def Let_def)

lemma getCubics_no_radius:
  "cornerRadius this = 0 \<Longrightarrow> length (snd (getCubics this a0 a1)) = 1"
  by (simp add: getCubics_def Let_def DistanceEpsilon_def)

lemma newRoundedCorner_Unrounded:
  "cornerRadius (newRoundedCorner q0 q1 q2 (Some Unrounded)) = 0"
  by (simp add: newRoundedCorner_def Let_def Unrounded_def)

lemma unrounded_corner_feature:
  assumes "i < length vertices div 2"
  shows "length (cubics (polygonFeatures
            (fromVertices vertices Unrounded None centerX centerY) ! (2 * i))) = 1"
proof -
  have "cornerRadius (roundedCornersOf vertices Unrounded None ! i) = 0"
    using assms
    by (simp add: roundedCornersOf_def Let_def vertexRounding_def newRoundedCorner_Unrounded)
  then show ?thesis
    using assms by (simp add: fromVertices_corner_feature cornersOf_nth getCubics_no_radius)
qed

lemma newRoundedCorner_Unrounded_cuts:
  "expectedRoundCut (newRoundedCorner q0 q1 q2 (Some Unrounded)) = 0"
  "expectedCut (newRoundedCorner q0 q1 q2 (Some Unrounded)) = 0"
  by (simp_all add: newRoundedCorner_def Let_def Unrounded_def expectedCut_def)

lemma sqrt25: "sqrt 25 = 5"
  using real_sqrt_abs [of 5] by simp

lemma sqrt_576_625: "sqrt (576 / 625) = 24 / 25"
  using real_sqrt_abs [of "24 / 25"] by (simp add: power2_eq_square)

lemma inner_corner_cuts:
  "expectedRoundCut (newRoundedCorner (mkPoint 4 0) (mkPoint 0 3) (mkPoint (- 4) 0)
      (Some \<lparr>radius = 1, smoothing = 0\<rparr>)) = 3 / 4"
  "cornerRadius (newRoundedCorner (mkPoint 4 0) (mkPoint 0 3) (mkPoint (- 4) 0)
      (Some \<lparr>radius = 1, smoothing = 0\<rparr>)) = 1"
  "expectedCut (newRoundedCorner (mkPoint 4 0) (mkPoint 0 3) (mkPoint (- 4) 0)
      (Some \<lparr>radius = 1, smoothing = 0\<rparr>)) = 3 / 4"
  by (simp_all add: newRoundedCorner_def Let_def expectedCut_def mkPoint_def Point_minus_def
      Point_getDistance_def Point_div_def Point_dotProduct_def sqrt25 sqrt_576_625
      power2_eq_square)

lemma rhombus_roundedCorners:
  "roundedCornersOf rhombusVertices Unrounded (Some rhombusRounding) =
     [newRoundedCorner (mkPoint 0 (- 3)) (mkPoint 4 0) (mkPoint 0 3) (Some Unrounded),
      newRoundedCorner (mkPoint 4 0) (mkPoint 0 3) (mkPoint (- 4) 0)
        (Some \<lparr>radius = 1, smoothing = 0\<rparr>),
      newRoundedCorner (mkPoint 0 3) (mkPoint (- 4) 0) (mkPoint 0 (- 3)) (Some Unrounded),
      newRoundedCorner (mkPoint (- 4) 0) (mkPoint 0 (- 3)) (mkPoint 4 0)
        (Some \<lparr>radius = 1, smoothing = 0\<rparr>)]"
  by (simp add: roundedCornersOf_def rhombusVertices_def rhombusRounding_def Let_def
      vertexAt_def vertexRounding_def upt_rec)

lemma rhombus_cutAdjusts:
  "take 2 (cutAdjustsOf rhombusVertices
             (roundedCornersOf rhombusVertices Unrounded (Some rhombusRounding))) =
     [(1, 1), (1, 1)]"
  unfolding rhombus_roundedCorners
  by (simp add: cutAdjustsOf_def Let_def newRoundedCorner_Unrounded_cuts inner_corner_cuts
      distance_def sqrt25 upt_rec rhombusVertices_def take_Cons')

lemma getCubics_three:
  "expectedRoundCut this \<ge> DistanceEpsilon \<Longrightarrow> min a0 a1 \<ge> DistanceEpsilon \<Longrightarrow>
   cornerRadius this \<ge> DistanceEpsilon \<Longrightarrow> length (snd (getCubics this a0 a1)) = 3"
  by (auto simp add: getCubics_def Let_def min_def)

lemma rhombus_inner_corner:
  "length (cubics (polygonFeatures
      (fromVertices rhombusVertices Unrounded (Some rhombusRounding) 0 0) ! 2)) = 3"
proof -
  define corners where
    "corners = roundedCornersOf rhombusVertices Unrounded (Some rhombusRounding)"
  define ratios where "ratios = cutAdjustsOf rhombusVertices corners"
  have n: "length rhombusVertices div 2 = 4" by (simp add: rhombusVertices_def)
  have i: "(1::nat) < length rhombusVertices div 2" by (simp add: n)
  have c0: "ratios ! 0 = (1, 1)"
    using arg_cong [OF rhombus_cutAdjusts, of "\<lambda>l. l ! 0"]
    by (simp add: ratios_def corners_def)
  have c1: "ratios ! Suc 0 = (1, 1)"
    using arg_cong [OF rhombus_cutAdjusts, of "\<lambda>l. l ! 1"]
    by (simp add: ratios_def corners_def)
  have cs: "corners ! Suc 0 =
      newRoundedCorner (mkPoint 4 0) (mkPoint 0 3) (mkPoint (- 4) 0)
        (Some \<lparr>radius = 1, smoothing = 0\<rparr>)"
    by (simp add: corners_def rhombus_roundedCorners)
  have ac: "allowedCutsOf 4 corners ratios (Suc 0) = [3 / 4, 3 / 4]"
    by (simp add: allowedCutsOf_def c0 c1 cs inner_corner_cuts)
  have "length (cornersOf 4 corners ratios ! 1) = 3"
    by (simp add: cornersOf_nth ac cs getCubics_three inner_corner_cuts DistanceEpsilon_def)
  then show ?thesis
    using fromVertices_corner_feature [OF i, of Unrounded "Some rhombusRounding" 0 0]
    by (simp add: n ratios_def corners_def)
qed

lemma star_code:
  "star n r ir rd inner None cx cy wl =
     fromVertices (starVerticesFromNumVerts n r ir cx cy) rd None cx cy"
  by (simp add: star_def Let_def)

text \<open>
  Claim C2 at \<open>star(2, 4, 3, Unrounded, new CornerRounding(1), null, 0, 0)\<close>. The
  call returns what \<open>fromVertices\<close> returns without any per-vertex rounding: the
  corner at the inner vertex (0,3) is a single point cubic. With the alternating list
  of the claim, \<open>fromVertices\<close> rounds that corner into three cubics, so the two
  polygons differ.
\<close>

theorem star_inner_rounding_lost:
  "star 2 4 3 Unrounded (Some \<lparr>radius = 1, smoothing = 0\<rparr>) None 0 0 windowLength =
     fromVertices (starVerticesFromNumVerts 2 4 3 0 0) Unrounded None 0 0 \<and>
   length (cubics (polygonFeatures
      (star 2 4 3 Unrounded (Some \<lparr>radius = 1, smoothing = 0\<rparr>) None 0 0 windowLength) ! 2)) = 1 \<and>
   length (cubics (polygonFeatures
      (fromVertices (starVerticesFromNumVerts 2 4 3 0 0) Unrounded
         (Some (alternatingRounding 2 Unrounded \<lparr>radius = 1, smoothing = 0\<rparr>)) 0 0) ! 2)) = 3 \<and>
   star 2 4 3 Unrounded (Some \<lparr>radius = 1, smoothing = 0\<rparr>) None 0 0 windowLength \<noteq>
     fromVertices (starVerticesFromNumVerts 2 4 3 0 0) Unrounded
       (Some (alternatingRounding 2 Unrounded \<lparr>radius = 1, smoothing = 0\<rparr>)) 0 0"
proof -
  have R: "alternatingRounding 2 Unrounded \<lparr>radius = 1, smoothing = 0\<rparr> = rhombusRounding"
    by (simp add: alternatingRounding_def rhombusRounding_def numeral_2_eq_2)
  have i: "(1::nat) < length rhombusVertices div 2" by (simp add: rhombusVertices_def)
  have one: "length (cubics (polygonFeatures
      (fromVertices rhombusVertices Unrounded None 0 0) ! 2)) = 1"
    using unrounded_corner_feature [OF i, of 0 0] by simp
  have three: "length (cubics (polygonFeatures
      (fromVertices rhombusVertices Unrounded (Some rhombusRounding) 0 0) ! 2)) = 3"
    by (rule rhombus_inner_corner)
  from one three have
    "fromVertices rhombusVertices Unrounded None 0 0 \<noteq>
     fromVertices rhombusVertices Unrounded (Some rhombusRounding) 0 0"
    by auto
  with one three show ?thesis
    by (simp add: star_code star_vertices_rhombus R)
qed

section \<open>Properties of featureMapper\<close>

lemma MAX_VALUE_big: "MAX_VALUE > 1000"
proof -
  have "(2::real) ^ 1023 \<ge> 2 ^ 10" by (rule power_increasing) simp_all
  moreover have "(2::real) - 1 / 2 ^ 52 \<ge> 1" by simp
  ultimately have "(2 - 1 / 2 ^ 52) * (2::real) ^ 1023 \<ge> 1 * 2 ^ 10"
    by (intro mult_mono) simp_all
  then show ?thesis by (simp add: MAX_VALUE_def)
qed

text \<open>
  Claim C5 at the two lists \<open>crossingFeatures1\<close> and \<open>crossingFeatures2\<close>. The three
  pairs of nearby corners are tried first, in the order of their distances; each is
  accepted and put at the front of the list, the third one (0.8, 0.3) because 0.3 lies
  between the \<open>b\<close> of the last pair and the \<open>b\<close> of the first pair of the list. By
  increasing \<open>a\<close> the \<open>b\<close> values are 0.1, 0.5, 0.3, which do not increase around
  the circle: a crossing.
\<close>

theorem featureMapper_crossing:
  "featureMapper crossingFeatures1 crossingFeatures2 =
     Inr (newDoubleMapper [(4 / 5, 3 / 10), (1 / 2, 1 / 2), (1 / 10, 1 / 10)]) \<and>
   \<not> orderPreserving [(4 / 5, 3 / 10), (1 / 2, 1 / 2), (1 / 10, 1 / 10)]"
proof -
  have "featureMapper crossingFeatures1 crossingFeatures2 =
     Inr (newDoubleMapper [(4 / 5, 3 / 10), (1 / 2, 1 / 2), (1 / 10, 1 / 10)])"
    using MAX_VALUE_big
    by (simp add: featureMapper_def doMapping_def crossingFeatures1_def crossingFeatures2_def
        pointCorner_def List.product.simps upt_rec featureDistSquared_def
        featureRepresentativePoint_def mkCubic_def mkPoint_def Point_minus_def
        Point_getDistanceSquared_def Let_def newMappingHelper_def addMapping_def findIndex_def
        js_read_def js_int_rem_def js_splice_insert_def progressDistance_def
        progressInRange_def DistanceEpsilon_def newDoubleMapper_def)
  moreover have "\<not> orderPreserving [(4 / 5, 3 / 10), (1 / 2, 1 / 2), (1 / 10, 1 / 10)]"
    by (simp add: orderPreserving_def cyclicallyIncreasing_def positiveModulo_frac frac_neg_unit
        increasing_Cons2 del: sorted_wrt.simps(2))
  ultimately show ?thesis by simp
qed

section \<open>Properties of DoubleMapper\<close>






























end
